theory Spec2Isabelle
  imports Complex_Main "HOL-Library.AList"
begin

section \<open>Python values\<close>

subsection \<open>Double-precision floats\<close>

text \<open>
  A Python \<open>float\<close> is an IEEE 754 double: a finite value, given here by the real number
  it denotes, an infinity (\<open>True\<close> for the positive one) or NaN. The sign of a zero is not
  modelled; it shows only in printing and in division, and the program does neither.
\<close>

datatype double = Finite real | Infinity bool | NaN

text \<open>
  Rounding a real to the nearest double, ties to the even significand. The spacing of the
  doubles around \<open>x\<close> is \<open>2\<close> to the power \<open>ulp_exponent x\<close>: 52 binary places below the
  leading bit of \<open>x\<close>, and \<open>-1074\<close> in the subnormal range. A result of magnitude
  \<open>2 ^ 1024\<close> or more is an infinity.
\<close>

definition round_half_even :: "real \<Rightarrow> int" where
  "round_half_even r =
     (let f = \<lfloor>r\<rfloor> in
      if r - of_int f < 1 / 2 then f
      else if 1 / 2 < r - of_int f then f + 1
      else if even f then f else f + 1)"

definition ulp_exponent :: "real \<Rightarrow> int" where
  "ulp_exponent x = max \<lfloor>log 2 \<bar>x\<bar>\<rfloor> (- 1022) - 52"

definition round_double :: "real \<Rightarrow> double" where
  "round_double x =
     (if x = 0 then Finite 0
      else let q = 2 powi ulp_exponent x;
               y = of_int (round_half_even (x / q)) * q
           in if 2 ^ 1024 \<le> \<bar>y\<bar> then Infinity (0 < x) else Finite y)"

text \<open>Addition and multiplication of doubles: the exact result, rounded.\<close>

fun double_add :: "double \<Rightarrow> double \<Rightarrow> double" where
  "double_add (Finite x) (Finite y) = round_double (x + y)"
| "double_add (Finite x) (Infinity b) = Infinity b"
| "double_add (Infinity a) (Finite y) = Infinity a"
| "double_add (Infinity a) (Infinity b) = (if a = b then Infinity a else NaN)"
| "double_add NaN y = NaN"
| "double_add x NaN = NaN"

fun double_mul :: "double \<Rightarrow> double \<Rightarrow> double" where
  "double_mul (Finite x) (Finite y) = round_double (x * y)"
| "double_mul (Finite x) (Infinity b) = (if x = 0 then NaN else Infinity (b = (0 < x)))"
| "double_mul (Infinity a) (Finite y) = (if y = 0 then NaN else Infinity (a = (0 < y)))"
| "double_mul (Infinity a) (Infinity b) = Infinity (a = b)"
| "double_mul NaN y = NaN"
| "double_mul x NaN = NaN"

fun double_abs :: "double \<Rightarrow> double" where
  "double_abs (Finite x) = Finite \<bar>x\<bar>"
| "double_abs (Infinity a) = Infinity True"
| "double_abs NaN = NaN"

text \<open>The order of the values; every comparison with NaN is false.\<close>

fun double_less :: "double \<Rightarrow> double \<Rightarrow> bool" where
  "double_less (Finite x) (Finite y) = (x < y)"
| "double_less (Finite x) (Infinity b) = b"
| "double_less (Infinity a) (Finite y) = (\<not> a)"
| "double_less (Infinity a) (Infinity b) = (\<not> a \<and> b)"
| "double_less NaN y = False"
| "double_less x NaN = False"

subsection \<open>Dynamic values\<close>

text \<open>
  The request payload is JSON-like data typed \<open>Dict[str, Any]\<close> in the source, so the model
  carries a type of dynamic values. An \<open>int\<close> is unbounded, a \<open>float\<close> is a double, and
  \<open>bool\<close> is a subclass of \<open>int\<close> that behaves as 0 or 1 in every operation used here.
  A dictionary is an association list in insertion order with string keys. The
  interpreter is CPython 3.11.
\<close>

datatype pyval =
    PNone
  | PInt int
  | PFloat double
  | PStr string
  | PList "pyval list"
  | PDict "(string \<times> pyval) list"

type_synonym pydict = "(string \<times> pyval) list"

text \<open>
  Exceptions raised on the dispatch path. \<open>AttributeError T a\<close> is raised by looking up the
  attribute \<open>a\<close> on an object of type \<open>T\<close>; \<open>NotCallable T\<close> is the \<open>TypeError\<close> of calling
  an object of type \<open>T\<close>; \<open>DelAttrError a\<close> is the \<open>AttributeError\<close> of deleting a missing
  attribute and \<open>NumberAttributeError a\<close> the one of looking up \<open>a\<close> on a number (its text
  tells \<open>int\<close>, \<open>float\<close> and \<open>bool\<close> apart, the model does not); the texts of these and of
  the remaining errors are not modelled. \<open>OverflowError\<close> is raised by converting an \<open>int\<close>
  beyond the range of the doubles to \<open>float\<close>.
\<close>

datatype exc =
    AttributeError string string
  | NotCallable string
  | TypeError
  | ValueError
  | ValidationError
  | OverflowError
  | DelAttrError string
  | NumberAttributeError string

fun str_exc :: "exc \<Rightarrow> string option" where
  "str_exc (AttributeError T a) =
     Some ([CHR 0x27] @ T @ [CHR 0x27] @ '' object has no attribute '' @ [CHR 0x27] @ a @ [CHR 0x27])"
| "str_exc (NotCallable T) = Some ([CHR 0x27] @ T @ [CHR 0x27] @ '' object is not callable'')"
| "str_exc _ = None"

fun truthy :: "pyval \<Rightarrow> bool" where
  "truthy PNone = False"
| "truthy (PInt i) = (i \<noteq> 0)"
| "truthy (PFloat d) = (d \<noteq> Finite 0)"
| "truthy (PStr s) = (s \<noteq> [])"
| "truthy (PList xs) = (xs \<noteq> [])"
| "truthy (PDict d) = (d \<noteq> [])"

text \<open>Looking up an attribute that the value does not have.\<close>

fun no_attribute :: "pyval \<Rightarrow> string \<Rightarrow> exc" where
  "no_attribute PNone a = AttributeError ''NoneType'' a"
| "no_attribute (PInt i) a = NumberAttributeError a"
| "no_attribute (PFloat d) a = NumberAttributeError a"
| "no_attribute (PStr s) a = AttributeError ''str'' a"
| "no_attribute (PList xs) a = AttributeError ''list'' a"
| "no_attribute (PDict d) a = AttributeError ''dict'' a"

fun hashable :: "pyval \<Rightarrow> bool" where
  "hashable (PList xs) = False"
| "hashable (PDict d) = False"
| "hashable _ = True"

text \<open>
  Converting an \<open>int\<close> to \<open>float\<close> rounds it to the nearest double and raises when that
  is out of range. This is what \<open>float(i)\<close> does and what an arithmetic operation does to
  an \<open>int\<close> operand when the other operand is a \<open>float\<close>.
\<close>

definition float_of_int :: "int \<Rightarrow> exc + double" where
  "float_of_int i =
     (case round_double (of_int i) of
        Infinity b \<Rightarrow> Inl OverflowError
      | d \<Rightarrow> Inr d)"

fun to_double :: "pyval \<Rightarrow> exc + double" where
  "to_double (PInt i) = float_of_int i"
| "to_double (PFloat d) = Inr d"
| "to_double _ = Inl TypeError"

text \<open>
  The builtin \<open>float(x)\<close>. Parsing a string is the interpreter's business: the parser is a
  parameter \<open>pf\<close>, \<open>None\<close> where \<open>float\<close> raises \<open>ValueError\<close>.
\<close>

fun py_float :: "(string \<Rightarrow> double option) \<Rightarrow> pyval \<Rightarrow> exc + double" where
  "py_float pf (PStr s) = (case pf s of None \<Rightarrow> Inl ValueError | Some x \<Rightarrow> Inr x)"
| "py_float pf v = to_double v"

text \<open>
  The value of a number, for comparisons: Python compares an \<open>int\<close> with a \<open>float\<close> by
  their exact values, without converting.
\<close>

fun number :: "pyval \<Rightarrow> double option" where
  "number (PInt i) = Some (Finite (of_int i))"
| "number (PFloat d) = Some d"
| "number _ = None"

text \<open>\<open>x < y\<close> with a number on the right: only numbers are ordered against numbers.\<close>

definition py_less :: "pyval \<Rightarrow> pyval \<Rightarrow> exc + bool" where
  "py_less x y =
     (case (number x, number y) of
        (Some a, Some b) \<Rightarrow> Inr (double_less a b)
      | _ \<Rightarrow> Inl TypeError)"

text \<open>\<open>abs(x)\<close> of a number.\<close>

fun py_abs :: "pyval \<Rightarrow> pyval" where
  "py_abs (PInt i) = PInt \<bar>i\<bar>"
| "py_abs (PFloat d) = PFloat (double_abs d)"
| "py_abs v = v"

text \<open>\<open>x + d\<close> with a float on the right.\<close>

definition py_add_float :: "pyval \<Rightarrow> double \<Rightarrow> exc + pyval" where
  "py_add_float x d =
     (case to_double x of
        Inl e \<Rightarrow> Inl e
      | Inr c \<Rightarrow> Inr (PFloat (double_add c d)))"

text \<open>
  \<open>x + y\<close> and \<open>x * y\<close> of two numbers: exact on two \<open>int\<close>s, in doubles otherwise. When
  an operand is not a number the sum of the portfolio value ends in a \<open>TypeError\<close>, raised
  by the operation or, after a sequence has been repeated, by adding the result to the
  running total (a sequence repeated by a huge \<open>int\<close> fails earlier, while it is built;
  that error is not told apart).
\<close>

fun py_add :: "pyval \<Rightarrow> pyval \<Rightarrow> exc + pyval" where
  "py_add (PInt a) (PInt b) = Inr (PInt (a + b))"
| "py_add (PInt a) (PFloat y) =
     (case float_of_int a of Inl e \<Rightarrow> Inl e | Inr x \<Rightarrow> Inr (PFloat (double_add x y)))"
| "py_add (PFloat x) (PInt b) =
     (case float_of_int b of Inl e \<Rightarrow> Inl e | Inr y \<Rightarrow> Inr (PFloat (double_add x y)))"
| "py_add (PFloat x) (PFloat y) = Inr (PFloat (double_add x y))"
| "py_add x y = Inl TypeError"

fun py_mul :: "pyval \<Rightarrow> pyval \<Rightarrow> exc + pyval" where
  "py_mul (PInt a) (PInt b) = Inr (PInt (a * b))"
| "py_mul (PInt a) (PFloat y) =
     (case float_of_int a of Inl e \<Rightarrow> Inl e | Inr x \<Rightarrow> Inr (PFloat (double_mul x y)))"
| "py_mul (PFloat x) (PInt b) =
     (case float_of_int b of Inl e \<Rightarrow> Inl e | Inr y \<Rightarrow> Inr (PFloat (double_mul x y)))"
| "py_mul (PFloat x) (PFloat y) = Inr (PFloat (double_mul x y))"
| "py_mul x y = Inl TypeError"

section \<open>Portfolio (schemas.py)\<close>

text \<open>
  \<open>token_balances\<close> is declared \<open>Dict[str, float]\<close>, but nothing checks what is written into
  it after construction, so keys and values are dynamic values. \<open>transaction_history\<close> is the
  list of recorded transaction dictionaries, oldest first.
\<close>

record Portfolio =
  token_balances :: "(pyval \<times> pyval) list"
  transaction_history :: "pydict list"

text \<open>
  Keys of the balance dictionary are compared as Python compares them: numbers by their
  values, so that \<open>1\<close> and \<open>1.0\<close> are the same key, everything else by structure. A NaN
  is equal to nothing: it is never found, and every store under it adds an entry.
\<close>

definition key_eq :: "pyval \<Rightarrow> pyval \<Rightarrow> bool" where
  "key_eq a b =
     (case (number a, number b) of
        (Some x, Some y) \<Rightarrow> x = y \<and> x \<noteq> NaN
      | _ \<Rightarrow> a = b)"

fun dict_lookup :: "(pyval \<times> pyval) list \<Rightarrow> pyval \<Rightarrow> pyval option" where
  "dict_lookup [] k = None"
| "dict_lookup ((k', v') # d) k = (if key_eq k' k then Some v' else dict_lookup d k)"

text \<open>
  \<open>d.get(k, default)\<close>, which raises on an unhashable key, and \<open>d[k] = v\<close>, which keeps
  the place and the key object of an entry that is already there and appends otherwise.
\<close>

definition dict_get :: "(pyval \<times> pyval) list \<Rightarrow> pyval \<Rightarrow> pyval \<Rightarrow> exc + pyval" where
  "dict_get d k dflt =
     (if \<not> hashable k then Inl TypeError
      else Inr (case dict_lookup d k of None \<Rightarrow> dflt | Some v \<Rightarrow> v))"

fun dict_set :: "(pyval \<times> pyval) list \<Rightarrow> pyval \<Rightarrow> pyval \<Rightarrow> (pyval \<times> pyval) list" where
  "dict_set [] k v = [(k, v)]"
| "dict_set ((k', v') # d) k v =
     (if key_eq k' k then (k', v) # d else (k', v') # dict_set d k v)"

definition get_token_balance :: "Portfolio \<Rightarrow> pyval \<Rightarrow> exc + pyval" where
  "get_token_balance p symbol = dict_get (token_balances p) symbol (PFloat (Finite 0))"

text \<open>
  \<open>adjust_token_balance\<close>: read with default 0.0, add, store. The result pairs the
  portfolio after the call with the exception raised, if any.
\<close>

definition adjust_token_balance :: "Portfolio \<Rightarrow> pyval \<Rightarrow> double \<Rightarrow> Portfolio \<times> exc option" where
  "adjust_token_balance p symbol delta =
     (case dict_get (token_balances p) symbol (PFloat (Finite 0)) of
        Inl e \<Rightarrow> (p, Some e)
      | Inr current \<Rightarrow>
          (case py_add_float current delta of
             Inl e \<Rightarrow> (p, Some e)
           | Inr v \<Rightarrow> (p\<lparr>token_balances := dict_set (token_balances p) symbol v\<rparr>, None)))"

text \<open>
  \<open>record_transaction\<close>: the append comes first and stays when the balance update raises.
\<close>

definition record_transaction ::
  "(string \<Rightarrow> double option) \<Rightarrow> Portfolio \<Rightarrow> pydict \<Rightarrow> Portfolio \<times> exc option" where
  "record_transaction pf p tx =
     (let p1 = p\<lparr>transaction_history := transaction_history p @ [tx]\<rparr> in
      case (map_of tx ''symbol'', map_of tx ''amount'') of
        (Some symbol, Some amount) \<Rightarrow>
          (case py_float pf amount of
             Inl e \<Rightarrow> (p1, Some e)
           | Inr delta \<Rightarrow> adjust_token_balance p1 symbol delta)
      | _ \<Rightarrow> (p1, None))"

text \<open>
  \<open>price_feeds.get(symbol, default_price)\<close>: \<open>price_feeds\<close> has been replaced by \<open>{}\<close> when
  falsy; a truthy value that is not a dictionary has no \<open>get\<close>.
\<close>

fun price_get :: "pyval \<Rightarrow> pyval \<Rightarrow> double \<Rightarrow> exc + pyval" where
  "price_get (PDict d) symbol dflt =
     Inr (case symbol of
            PStr s \<Rightarrow> (case map_of d s of None \<Rightarrow> PFloat dflt | Some v \<Rightarrow> v)
          | _ \<Rightarrow> PFloat dflt)"
| "price_get v symbol dflt = Inl (no_attribute v ''get'')"

text \<open>
  One step of \<open>sum(balance * price for ...)\<close>: the price is looked up, the product is
  formed, and \<open>sum\<close> adds it to its running total, which starts as the \<open>int\<close> 0. In
  CPython 3.11 \<open>sum\<close> adds from left to right.
\<close>

fun total_step :: "pyval \<Rightarrow> double \<Rightarrow> pyval \<Rightarrow> pyval \<times> pyval \<Rightarrow> exc + pyval" where
  "total_step feeds dflt acc (symbol, balance) =
     (case price_get feeds symbol dflt of
        Inl e \<Rightarrow> Inl e
      | Inr price \<Rightarrow>
          (case py_mul balance price of
             Inl e \<Rightarrow> Inl e
           | Inr product \<Rightarrow> py_add acc product))"

fun total_loop :: "pyval \<Rightarrow> double \<Rightarrow> pyval \<Rightarrow> (pyval \<times> pyval) list \<Rightarrow> exc + pyval" where
  "total_loop feeds dflt acc [] = Inr acc"
| "total_loop feeds dflt acc (item # items) =
     (case total_step feeds dflt acc item of
        Inl e \<Rightarrow> Inl e
      | Inr acc' \<Rightarrow> total_loop feeds dflt acc' items)"

definition get_total_value :: "Portfolio \<Rightarrow> pyval \<Rightarrow> double \<Rightarrow> exc + pyval" where
  "get_total_value p price_feeds default_price =
     total_loop (if \<not> truthy price_feeds then PDict [] else price_feeds) default_price (PInt 0)
       (token_balances p)"

section \<open>Wallet (schemas.py)\<close>

record AgentWallet =
  chain :: string
  address :: "string option"
  private_key :: "string option"

text \<open>
  What the host supplies to a construction: the parser behind \<open>float\<close>, the string of
  \<open>uuid.uuid4()\<close>, and the key and address of \<open>Account.create()\<close>.
\<close>

record host =
  parse_float :: "string \<Rightarrow> double option"
  new_id :: string
  account_key :: string
  account_address :: string

definition ensure_valid_wallet :: "host \<Rightarrow> AgentWallet \<Rightarrow> AgentWallet" where
  "ensure_valid_wallet h w =
     (if private_key w = None \<or> private_key w = Some []
      then w\<lparr>private_key := Some (account_key h), address := Some (account_address h)\<rparr>
      else w)"

definition opt_str :: "string option \<Rightarrow> pyval" where
  "opt_str s = (case s of None \<Rightarrow> PNone | Some x \<Rightarrow> PStr x)"

text \<open>\<open>d.get(k, default)\<close> on a payload; anything but a dictionary has no \<open>get\<close>.\<close>

fun py_get :: "pyval \<Rightarrow> string \<Rightarrow> pyval \<Rightarrow> exc + pyval" where
  "py_get (PDict d) k dflt = Inr (case map_of d k of None \<Rightarrow> dflt | Some v \<Rightarrow> v)"
| "py_get v k dflt = Inl (no_attribute v ''get'')"

definition format_transaction :: "AgentWallet \<Rightarrow> pyval \<Rightarrow> exc + pydict" where
  "format_transaction w tx_data =
     (case tx_data of
        PDict d \<Rightarrow>
          Inr [(''from'', opt_str (address w)),
               (''to'', (case map_of d ''to'' of None \<Rightarrow> PNone | Some v \<Rightarrow> v)),
               (''value'', (case map_of d ''value'' of None \<Rightarrow> PInt 0 | Some v \<Rightarrow> v)),
               (''data'', (case map_of d ''data'' of None \<Rightarrow> PStr ''0x'' | Some v \<Rightarrow> v)),
               (''chainId'', PInt 1),
               (''nonce'', (case map_of d ''nonce'' of None \<Rightarrow> PInt 0 | Some v \<Rightarrow> v)),
               (''gas'', (case map_of d ''gas'' of None \<Rightarrow> PInt 21000 | Some v \<Rightarrow> v)),
               (''maxFeePerGas'',
                  (case map_of d ''maxFeePerGas'' of None \<Rightarrow> PInt 20000000000 | Some v \<Rightarrow> v)),
               (''maxPriorityFeePerGas'',
                  (case map_of d ''maxPriorityFeePerGas'' of None \<Rightarrow> PInt 1500000000 | Some v \<Rightarrow> v))]
      | v \<Rightarrow> Inl (no_attribute v ''get''))"

text \<open>\<open>AgentWallet.sign_transaction\<close>; the flag \<open>True\<close> is the number 1.\<close>

definition wallet_sign_transaction :: "AgentWallet \<Rightarrow> pyval \<Rightarrow> exc + pydict" where
  "wallet_sign_transaction w tx_data =
     (case format_transaction w tx_data of
        Inl e \<Rightarrow> Inl e
      | Inr formatted_tx \<Rightarrow>
          Inr [(''signed'', PInt 1),
               (''chain'', PStr (chain w)),
               (''address'', opt_str (address w)),
               (''tx_data'', PDict formatted_tx),
               (''network'', PStr ''ethereum''),
               (''chainId'', PInt 1),
               (''status'', PStr ''signed'')])"

section \<open>Agent (schemas.py)\<close>

record EconomicAgent =
  agent_id :: string
  rewards :: "double list"
  total_reward :: double
  wallet :: "AgentWallet option"
  holdings :: "Portfolio option"

text \<open>
  The constructor. \<open>initial_holdings\<close> goes through the validation of the \<open>Portfolio\<close>
  model, so it is typed here.
\<close>

definition EconomicAgent_init ::
  "host \<Rightarrow> bool \<Rightarrow> (string \<times> double) list option \<Rightarrow> EconomicAgent" where
  "EconomicAgent_init h generate_wallet initial_holdings =
     (let a = \<lparr>agent_id = new_id h, rewards = [], total_reward = Finite 0,
               wallet = None, holdings = None\<rparr>
      in if generate_wallet
         then a\<lparr>wallet := Some (ensure_valid_wallet h
                      \<lparr>chain = ''ethereum'', address = None, private_key = None\<rparr>),
                holdings := Some \<lparr>token_balances =
                      map (\<lambda>(s, b). (PStr s, PFloat b))
                        (case initial_holdings of None \<Rightarrow> [] | Some d \<Rightarrow> d),
                    transaction_history = []\<rparr>\<rparr>
         else a)"

definition add_reward :: "EconomicAgent \<Rightarrow> double \<Rightarrow> EconomicAgent" where
  "add_reward a reward =
     a\<lparr>rewards := rewards a @ [reward], total_reward := double_add (total_reward a) reward\<rparr>"

definition agent_add_transaction ::
  "(string \<Rightarrow> double option) \<Rightarrow> EconomicAgent \<Rightarrow> pydict \<Rightarrow> EconomicAgent \<times> exc option" where
  "agent_add_transaction pf a tx =
     (case holdings a of
        None \<Rightarrow> (a, None)
      | Some p \<Rightarrow> (let (p', r) = record_transaction pf p tx in (a\<lparr>holdings := Some p'\<rparr>, r)))"

definition agent_get_token_balance :: "EconomicAgent \<Rightarrow> pyval \<Rightarrow> exc + pyval" where
  "agent_get_token_balance a symbol =
     (case holdings a of
        None \<Rightarrow> Inr (PFloat (Finite 0))
      | Some p \<Rightarrow> get_token_balance p symbol)"

definition agent_get_portfolio_value :: "EconomicAgent \<Rightarrow> pyval \<Rightarrow> double \<Rightarrow> exc + pyval" where
  "agent_get_portfolio_value a price_feeds default_price =
     (case holdings a of
        None \<Rightarrow> Inr (PFloat (Finite 0))
      | Some p \<Rightarrow> get_total_value p price_feeds default_price)"

definition agent_sign_transaction :: "EconomicAgent \<Rightarrow> pyval \<Rightarrow> exc + pydict" where
  "agent_sign_transaction a tx_data =
     (case wallet a of None \<Rightarrow> Inr [] | Some w \<Rightarrow> wallet_sign_transaction w tx_data)"

section \<open>Response envelopes (run.py)\<close>

text \<open>
  The message of an error envelope: a literal text, the f-string of the balance check with
  its three interpolated values (symbol, balance held, amount needed), or \<open>str(e)\<close> of a
  caught exception.
\<close>

datatype msg =
    Text string
  | Insufficient pyval pyval pyval
  | StrExc exc

text \<open>
  An envelope is a dictionary; its values are payload values, messages, or the
  \<open>model_dump()\<close> of the wallet or of the holdings.
\<close>

datatype item =
    Val pyval
  | Msg msg
  | WalletDump AgentWallet
  | HoldingsDump Portfolio

type_synonym envelope = "(string \<times> item) list"

definition status :: "envelope \<Rightarrow> item option" where
  "status env = map_of env ''status''"

definition message :: "envelope \<Rightarrow> item option" where
  "message env = map_of env ''message''"

definition not_initialized :: envelope where
  "not_initialized =
     [(''status'', Val (PStr ''error'')),
      (''message'', Msg (Text ''Agent not initialized. Call create first.''))]"

section \<open>The module object (run.py)\<close>

text \<open>
  The instance attributes of \<open>EconomicAgentModule\<close>. An attribute is \<open>None\<close> in the model
  once it has been deleted from the instance (reading it then raises \<open>AttributeError\<close>); the
  constructor sets all three.
\<close>

record 'd EconomicAgentModule =
  deployment :: "'d option"
  consumer_id :: "string option"
  agent :: "EconomicAgent option"

definition EconomicAgentModule_init :: "host \<Rightarrow> 'd \<Rightarrow> string \<Rightarrow> 'd EconomicAgentModule" where
  "EconomicAgentModule_init h d c =
     \<lparr>deployment = Some d, consumer_id = Some c, agent = Some (EconomicAgent_init h True None)\<rparr>"

text \<open>
  Truth value of a pydantic model object: the class defines neither \<open>__bool__\<close> nor
  \<open>__len__\<close>, so every instance is true.
\<close>

definition model_truthy :: "'a \<Rightarrow> bool" where
  "model_truthy x = True"

definition no_agent :: exc where
  "no_agent = AttributeError ''EconomicAgentModule'' ''agent''"

text \<open>
  \<open>dict.update(other)\<close> on the balances. A dictionary is merged key by key. Any other
  iterable is read as a sequence of pairs: each element must itself be a sequence of
  length two with a hashable first component, and the entries before a bad element stay.
\<close>

fun seq_pair :: "pyval \<Rightarrow> exc + (pyval \<times> pyval)" where
  "seq_pair (PList [k, v]) = (if hashable k then Inr (k, v) else Inl TypeError)"
| "seq_pair (PList xs) = Inl ValueError"
| "seq_pair (PStr [c, d]) = Inr (PStr [c], PStr [d])"
| "seq_pair (PStr s) = Inl ValueError"
| "seq_pair (PDict [(k, v), (k', v')]) = Inr (PStr k, PStr k')"
| "seq_pair (PDict d) = Inl ValueError"
| "seq_pair _ = Inl TypeError"

fun update_from_seq :: "(pyval \<times> pyval) list \<Rightarrow> pyval list \<Rightarrow> (pyval \<times> pyval) list \<times> exc option" where
  "update_from_seq b [] = (b, None)"
| "update_from_seq b (x # xs) =
     (case seq_pair x of
        Inl e \<Rightarrow> (b, Some e)
      | Inr (k, v) \<Rightarrow> update_from_seq (dict_set b k v) xs)"

fun dict_update :: "(pyval \<times> pyval) list \<Rightarrow> pyval \<Rightarrow> (pyval \<times> pyval) list \<times> exc option" where
  "dict_update b (PDict d) = (foldl (\<lambda>acc (k, v). AList.update (PStr k) v acc) b d, None)"
| "dict_update b (PList xs) = update_from_seq b xs"
| "dict_update b (PStr s) = update_from_seq b (map (\<lambda>c. PStr [c]) s)"
| "dict_update b _ = (b, Some TypeError)"

text \<open>\<open>self.agent.holdings.token_balances.update(initial_holdings)\<close>\<close>

definition seed_holdings ::
  "'d EconomicAgentModule \<Rightarrow> pyval \<Rightarrow> 'd EconomicAgentModule \<times> exc option" where
  "seed_holdings m initial_holdings =
     (case agent m of
        None \<Rightarrow> (m, Some no_agent)
      | Some a \<Rightarrow>
          (case holdings a of
             None \<Rightarrow> (m, Some (AttributeError ''NoneType'' ''token_balances''))
           | Some p \<Rightarrow>
               (let (b, r) = dict_update (token_balances p) initial_holdings
                in (m\<lparr>agent := Some (a\<lparr>holdings := Some (p\<lparr>token_balances := b\<rparr>)\<rparr>)\<rparr>, r))))"

definition create_snapshot :: "'d EconomicAgentModule \<Rightarrow> exc + envelope" where
  "create_snapshot m =
     (case agent m of
        None \<Rightarrow> Inl no_agent
      | Some a \<Rightarrow>
          Inr [(''status'', Val (PStr ''success'')),
               (''agent_id'', Val (PStr (agent_id a))),
               (''wallet'', (case wallet a of None \<Rightarrow> Val PNone | Some w \<Rightarrow> WalletDump w)),
               (''holdings'', (case holdings a of None \<Rightarrow> Val PNone | Some p \<Rightarrow> HoldingsDump p))])"

definition create ::
  "'d EconomicAgentModule \<Rightarrow> pyval \<Rightarrow> 'd EconomicAgentModule \<times> (exc + envelope)" where
  "create m initial_holdings =
     (if truthy initial_holdings
      then (case seed_holdings m initial_holdings of
              (m', Some e) \<Rightarrow> (m', Inl e)
            | (m', None) \<Rightarrow> (m', create_snapshot m'))
      else (m, create_snapshot m))"

text \<open>The first validation of \<open>add_transaction\<close>: a non-empty dictionary with the three keys.\<close>

fun tx_shape_ok :: "pyval \<Rightarrow> bool" where
  "tx_shape_ok (PDict d) =
     (d \<noteq> [] \<and> list_all (\<lambda>k. map_of d k \<noteq> None) [''type'', ''symbol'', ''amount''])"
| "tx_shape_ok _ = False"

definition tx_types :: "pyval list" where
  "tx_types = [PStr ''withdraw'', PStr ''reward'', PStr ''deposit'', PStr ''trade'']"

definition tx_get :: "pydict \<Rightarrow> string \<Rightarrow> pyval \<Rightarrow> pyval" where
  "tx_get d k dflt = (case map_of d k of None \<Rightarrow> dflt | Some v \<Rightarrow> v)"

text \<open>
  The balance check of \<open>add_transaction\<close>: \<open>Inr None\<close> when the transaction may be recorded,
  \<open>Inr (Some env)\<close> when it is refused, \<open>Inl e\<close> when a comparison raises.
\<close>

definition balance_check :: "EconomicAgent \<Rightarrow> pydict \<Rightarrow> exc + envelope option" where
  "balance_check a d =
     (if tx_get d ''type'' PNone \<in> set [PStr ''withdraw'', PStr ''trade'']
      then (case py_less (tx_get d ''amount'' (PInt 0)) (PInt 0) of
              Inl e \<Rightarrow> Inl e
            | Inr False \<Rightarrow> Inr None
            | Inr True \<Rightarrow>
                (let symbol = tx_get d ''symbol'' PNone;
                     amount = py_abs (tx_get d ''amount'' (PInt 0))
                 in case agent_get_token_balance a symbol of
                      Inl e \<Rightarrow> Inl e
                    | Inr current_balance \<Rightarrow>
                        (case py_less current_balance amount of
                           Inl e \<Rightarrow> Inl e
                         | Inr True \<Rightarrow>
                             Inr (Some [(''status'', Val (PStr ''error'')),
                                        (''message'', Msg (Insufficient symbol current_balance amount)),
                                        (''transaction'', Val (PDict d))])
                         | Inr False \<Rightarrow> Inr None)))
      else Inr None)"

definition add_transaction ::
  "(string \<Rightarrow> double option) \<Rightarrow> 'd EconomicAgentModule \<Rightarrow> pyval
     \<Rightarrow> 'd EconomicAgentModule \<times> (exc + envelope)" where
  "add_transaction pf m tx =
     (case agent m of
        None \<Rightarrow> (m, Inl no_agent)
      | Some a \<Rightarrow>
          if \<not> model_truthy a then (m, Inr not_initialized)
          else if \<not> tx_shape_ok tx
          then (m, Inr [(''status'', Val (PStr ''error'')),
                        (''message'',
                           Msg (Text ''Invalid transaction data - must include type, symbol and amount''))])
          else (case tx of
                  PDict d \<Rightarrow>
                    if tx_get d ''type'' PNone \<notin> set tx_types
                    then (m, Inr [(''status'', Val (PStr ''error'')),
                                  (''message'',
                                     Msg (Text ''Invalid transaction type - only withdraw and deposit allowed'')),
                                  (''transaction'', Val tx)])
                    else (case balance_check a d of
                            Inl e \<Rightarrow> (m, Inl e)
                          | Inr (Some env) \<Rightarrow> (m, Inr env)
                          | Inr None \<Rightarrow>
                              (case agent_add_transaction pf a d of
                                 (a', Some e) \<Rightarrow> (m\<lparr>agent := Some a'\<rparr>, Inl e)
                               | (a', None) \<Rightarrow>
                                   (m\<lparr>agent := Some a'\<rparr>,
                                    Inr [(''status'', Val (PStr ''success'')),
                                         (''transaction'', Val tx)])))
                | _ \<Rightarrow> (m, Inl TypeError)))"

definition module_get_token_balance :: "'d EconomicAgentModule \<Rightarrow> pyval \<Rightarrow> exc + envelope" where
  "module_get_token_balance m symbol =
     (case agent m of
        None \<Rightarrow> Inl no_agent
      | Some a \<Rightarrow>
          if \<not> model_truthy a then Inr not_initialized
          else (case agent_get_token_balance a symbol of
                  Inl e \<Rightarrow> Inl e
                | Inr balance \<Rightarrow>
                    Inr [(''status'', Val (PStr ''success'')),
                         (''symbol'', Val symbol),
                         (''balance'', Val balance)]))"

definition module_get_portfolio_value ::
  "'d EconomicAgentModule \<Rightarrow> pyval \<Rightarrow> double \<Rightarrow> exc + envelope" where
  "module_get_portfolio_value m price_feeds default_price =
     (case agent m of
        None \<Rightarrow> Inl no_agent
      | Some a \<Rightarrow>
          if \<not> model_truthy a then Inr not_initialized
          else (case agent_get_portfolio_value a price_feeds default_price of
                  Inl e \<Rightarrow> Inl e
                | Inr v \<Rightarrow> Inr [(''status'', Val (PStr ''success'')), (''value'', Val v)]))"

text \<open>
  \<open>{"status": "success", **signed_tx}\<close>: a key of \<open>signed_tx\<close> replaces the one written
  before it and keeps its place.
\<close>

definition spread :: "envelope \<Rightarrow> pydict \<Rightarrow> envelope" where
  "spread env d = foldl (\<lambda>acc (k, v). AList.update k (Val v) acc) env d"

definition sign_transaction :: "'d EconomicAgentModule \<Rightarrow> pyval \<Rightarrow> exc + envelope" where
  "sign_transaction m tx_data =
     (case agent m of
        None \<Rightarrow> Inl no_agent
      | Some a \<Rightarrow>
          if \<not> model_truthy a then Inr not_initialized
          else (case agent_sign_transaction a tx_data of
                  Inl e \<Rightarrow> Inl e
                | Inr signed_tx \<Rightarrow>
                    if signed_tx = []
                    then Inr [(''status'', Val (PStr ''error'')),
                              (''message'', Msg (Text ''Failed to sign transaction''))]
                    else Inr (spread [(''status'', Val (PStr ''success''))] signed_tx)))"

section \<open>The dispatcher (run.py)\<close>

text \<open>
  The validated request: \<open>AgentRunInput\<close> with its \<open>inputs\<close> validated as \<open>InputSchema\<close>, so
  \<open>func_name\<close> is a string and \<open>func_input_data\<close> is \<open>None\<close>, a dictionary, a list or a
  string.
\<close>

record 'd AgentRunInput =
  caller :: string
  run_deployment :: 'd
  func_name :: string
  func_input_data :: pyval

text \<open>\<open>run._agents\<close>: the module objects by consumer id, empty before the first call.\<close>

type_synonym 'd registry = "(string \<times> 'd EconomicAgentModule) list"

text \<open>
  What \<open>getattr(agent_module, name)\<close> finds (the attributes of an instance of a plain class
  in CPython 3.11): one of the five coroutine methods, an object
  that cannot be called (with its truth value and the name of its type), the class, or
  another callable: the constructor and what the class inherits from \<open>object\<close>.
\<close>

datatype attr =
    Method string
  | Plain bool string
  | ClassObject
  | Inherited string

definition methods :: "string list" where
  "methods = [''create'', ''add_transaction'', ''get_token_balance'',
              ''get_portfolio_value'', ''sign_transaction'']"

definition inherited :: "string list" where
  "inherited = [''__init__'', ''__delattr__'', ''__dir__'', ''__eq__'', ''__format__'', ''__ge__'',
                ''__getattribute__'', ''__getstate__'', ''__gt__'', ''__hash__'',
                ''__init_subclass__'', ''__le__'', ''__lt__'', ''__ne__'', ''__new__'',
                ''__reduce__'', ''__reduce_ex__'', ''__repr__'', ''__setattr__'', ''__sizeof__'',
                ''__str__'', ''__subclasshook__'']"

definition py_getattr :: "'d EconomicAgentModule \<Rightarrow> string \<Rightarrow> exc + attr" where
  "py_getattr m name =
     (if name \<in> set methods then Inr (Method name)
      else if name = ''deployment''
      then (case deployment m of
              None \<Rightarrow> Inl (AttributeError ''EconomicAgentModule'' name)
            | Some d \<Rightarrow> Inr (Plain (model_truthy d) ''AgentDeployment''))
      else if name = ''consumer_id''
      then (case consumer_id m of
              None \<Rightarrow> Inl (AttributeError ''EconomicAgentModule'' name)
            | Some c \<Rightarrow> Inr (Plain (c \<noteq> []) ''str''))
      else if name = ''agent''
      then (case agent m of
              None \<Rightarrow> Inl (AttributeError ''EconomicAgentModule'' name)
            | Some a \<Rightarrow> Inr (Plain (model_truthy a) ''EconomicAgent''))
      else if name = ''__dict__''
      then Inr (Plain (deployment m \<noteq> None \<or> consumer_id m \<noteq> None \<or> agent m \<noteq> None) ''dict'')
      else if name = ''__doc__'' \<or> name = ''__module__'' then Inr (Plain True ''str'')
      else if name = ''__weakref__'' then Inr (Plain False ''NoneType'')
      else if name = ''__class__'' then Inr ClassObject
      else if name \<in> set inherited then Inr (Inherited name)
      else Inl (AttributeError ''EconomicAgentModule'' name))"

text \<open>
  Calling one of these other callables with the one positional argument of the default
  branch, and awaiting the result. Nothing it returns can be awaited, so every call
  ends in an exception; \<open>__delattr__\<close> with the name of an instance attribute removes the
  attribute first, and with \<open>__dict__\<close> it removes all of them.
\<close>

definition call_inherited ::
  "'d EconomicAgentModule \<Rightarrow> string \<Rightarrow> pyval \<Rightarrow> 'd EconomicAgentModule \<times> exc" where
  "call_inherited m name arg =
     (if name = ''__delattr__''
      then (case arg of
              PStr s \<Rightarrow>
                if s = ''deployment'' \<and> deployment m \<noteq> None then (m\<lparr>deployment := None\<rparr>, TypeError)
                else if s = ''consumer_id'' \<and> consumer_id m \<noteq> None
                then (m\<lparr>consumer_id := None\<rparr>, TypeError)
                else if s = ''agent'' \<and> agent m \<noteq> None then (m\<lparr>agent := None\<rparr>, TypeError)
                else if s = ''__dict__''
                then (m\<lparr>deployment := None, consumer_id := None, agent := None\<rparr>, TypeError)
                else if s = ''__class__'' then (m, TypeError)
                else (m, DelAttrError s)
            | _ \<Rightarrow> (m, TypeError))
      else if name = ''__getattribute__''
      then (case arg of
              PStr s \<Rightarrow> (case py_getattr m s of Inl e \<Rightarrow> (m, e) | Inr v \<Rightarrow> (m, TypeError))
            | _ \<Rightarrow> (m, TypeError))
      else (m, TypeError))"

text \<open>Truth value of what \<open>getattr\<close> found: methods, classes and callables are true.\<close>

fun attr_truthy :: "attr \<Rightarrow> bool" where
  "attr_truthy (Plain t T) = t"
| "attr_truthy _ = True"

text \<open>
  The \<open>match\<close> on the operation name. The first four cases pass the arguments they read
  from \<open>func_input\<close>; the default case calls whatever \<open>getattr\<close> found with \<open>func_input\<close>
  itself, which for the methods is \<open>sign_transaction\<close>.
\<close>

definition call_method ::
  "(string \<Rightarrow> double option) \<Rightarrow> 'd EconomicAgentModule \<Rightarrow> string \<Rightarrow> attr \<Rightarrow> pyval
     \<Rightarrow> 'd EconomicAgentModule \<times> (exc + envelope)" where
  "call_method pf m name method func_input =
     (if name = ''create''
      then (case py_get func_input ''initial_holdings'' PNone of
              Inl e \<Rightarrow> (m, Inl e)
            | Inr ih \<Rightarrow> create m ih)
      else if name = ''add_transaction'' then add_transaction pf m func_input
      else if name = ''get_token_balance''
      then (case py_get func_input ''symbol'' PNone of
              Inl e \<Rightarrow> (m, Inl e)
            | Inr symbol \<Rightarrow> (m, module_get_token_balance m symbol))
      else if name = ''get_portfolio_value''
      then (case py_get func_input ''price_feeds'' PNone of
              Inl e \<Rightarrow> (m, Inl e)
            | Inr price_feeds \<Rightarrow>
                (case py_get func_input ''default_price'' (PFloat (Finite 0)) of
                   Inl e \<Rightarrow> (m, Inl e)
                 | Inr dp \<Rightarrow>
                     (case py_float pf dp of
                        Inl e \<Rightarrow> (m, Inl e)
                      | Inr default_price \<Rightarrow>
                          (m, module_get_portfolio_value m price_feeds default_price))))
      else (case method of
              Method n \<Rightarrow> (m, sign_transaction m func_input)
            | Plain t T \<Rightarrow> (m, Inl (NotCallable T))
            | ClassObject \<Rightarrow> (m, Inl TypeError)
            | Inherited n \<Rightarrow> (let (m', e) = call_inherited m n func_input in (m', Inl e))))"

text \<open>
  The body of the \<open>try\<close> block once the module object is at hand: the attribute lookup, the
  test \<open>if not method\<close>, \<open>func_input_data or {}\<close>, and the \<open>match\<close>.
\<close>

definition dispatch ::
  "(string \<Rightarrow> double option) \<Rightarrow> 'd EconomicAgentModule \<Rightarrow> string \<Rightarrow> pyval
     \<Rightarrow> 'd EconomicAgentModule \<times> (exc + envelope)" where
  "dispatch pf m name data =
     (case py_getattr m name of
        Inl e \<Rightarrow> (m, Inl e)
      | Inr method \<Rightarrow>
          if \<not> attr_truthy method
          then (m, Inr [(''status'', Val (PStr ''error'')),
                        (''message'', Msg (Text (''Invalid function name: '' @ name)))])
          else call_method pf m name method (if truthy data then data else PDict []))"

text \<open>
  \<open>run\<close>. The argument is \<open>Inl e\<close> when one of the two schema constructors raises \<open>e\<close>, and
  the validated request otherwise. The result is the registry after the call and the
  dictionary returned; an exception raised in the \<open>try\<close> block becomes an error envelope and
  what was written before it was raised stays.
\<close>

definition run ::
  "host \<Rightarrow> 'd registry \<Rightarrow> exc + 'd AgentRunInput \<Rightarrow> 'd registry \<times> envelope" where
  "run h agents module_run =
     (case module_run of
        Inl e \<Rightarrow> (agents, [(''status'', Val (PStr ''error'')), (''message'', Msg (StrExc e))])
      | Inr r \<Rightarrow>
          (let agent_key = caller r;
               agent_module = (case map_of agents agent_key of
                                 None \<Rightarrow> EconomicAgentModule_init h (run_deployment r) (caller r)
                               | Some m \<Rightarrow> m);
               (m', result) = dispatch (parse_float h) agent_module (func_name r) (func_input_data r);
               agents' = AList.update agent_key m' agents
           in case result of
                Inl e \<Rightarrow> (agents', [(''status'', Val (PStr ''error'')), (''message'', Msg (StrExc e))])
              | Inr env \<Rightarrow> (agents', env)))"

text \<open>
  The registries that calls of \<open>run\<close> produce from the empty one. \<open>Account.create()\<close> of
  \<open>eth_account\<close> returns a 32-byte key and the address derived from it, so the host's key and
  address are not empty.
\<close>

definition valid_host :: "host \<Rightarrow> bool" where
  "valid_host h = (account_key h \<noteq> [] \<and> account_address h \<noteq> [])"

inductive reachable :: "'d registry \<Rightarrow> bool" where
  start: "reachable []"
| step: "reachable agents \<Longrightarrow> valid_host h \<Longrightarrow> reachable (fst (run h agents module_run))"

section \<open>Notions of the specification\<close>

text \<open>
  The sum of the recorded amounts for a symbol, in the specification's words: the sum of
  \<open>tx["amount"]\<close> over the entries of the history with \<open>tx["symbol"] == symbol\<close>, the
  amounts taken as the numbers they are.
\<close>

definition exact_amount :: "pydict \<Rightarrow> real" where
  "exact_amount tx =
     (case map_of tx ''amount'' of
        Some (PInt i) \<Rightarrow> of_int i
      | Some (PFloat (Finite x)) \<Rightarrow> x
      | _ \<Rightarrow> 0)"

definition exact_sum :: "pyval \<Rightarrow> pydict list \<Rightarrow> real" where
  "exact_sum symbol h =
     sum_list (map exact_amount (filter (\<lambda>tx. map_of tx ''symbol'' = Some symbol) h))"

text \<open>
  The same sum as the program can hold it: every amount converted by \<open>float\<close>, and the
  amounts added up in doubles in the order of the history, starting from 0.0.
\<close>

definition float_amount :: "pydict \<Rightarrow> double" where
  "float_amount tx =
     (case map_of tx ''amount'' of
        None \<Rightarrow> Finite 0
      | Some v \<Rightarrow> (case to_double v of Inl e \<Rightarrow> Finite 0 | Inr d \<Rightarrow> d))"

definition float_sum :: "pyval \<Rightarrow> pydict list \<Rightarrow> double" where
  "float_sum symbol h =
     foldl double_add (Finite 0)
       (map float_amount (filter (\<lambda>tx. map_of tx ''symbol'' = Some symbol) h))"

text \<open>
  A transaction in the sense of the data model: a dictionary whose \<open>symbol\<close> is a string
  and whose \<open>amount\<close> is a number that \<open>float\<close> converts (a float, or an \<open>int\<close> within the
  range of the doubles).
\<close>

definition is_transaction :: "pydict \<Rightarrow> bool" where
  "is_transaction tx =
     (case (map_of tx ''symbol'', map_of tx ''amount'') of
        (Some (PStr s), Some v) \<Rightarrow> (case to_double v of Inl e \<Rightarrow> False | Inr d \<Rightarrow> True)
      | _ \<Rightarrow> False)"

text \<open>The balances are the per-symbol sums of the history, in doubles.\<close>

definition balanced :: "Portfolio \<Rightarrow> bool" where
  "balanced p =
     (\<forall>s. get_token_balance p (PStr s)
            = Inr (PFloat (float_sum (PStr s) (transaction_history p))))"

text \<open>Recording a sequence of transactions, one call of \<open>record_transaction\<close> after the other.\<close>

fun record_all :: "(string \<Rightarrow> double option) \<Rightarrow> Portfolio \<Rightarrow> pydict list \<Rightarrow> Portfolio" where
  "record_all pf p [] = p"
| "record_all pf p (tx # txs) = record_all pf (fst (record_transaction pf p tx)) txs"

text \<open>A number that is not negative.\<close>

definition nonnegative :: "pyval \<Rightarrow> bool" where
  "nonnegative v =
     (case number v of
        Some (Finite x) \<Rightarrow> 0 \<le> x
      | Some (Infinity b) \<Rightarrow> b
      | _ \<Rightarrow> False)"






text \<open>
  Reading the record returned by \<open>AgentWallet.sign_transaction\<close>: a field of the record,
  and a field of the formatted transaction body under \<open>tx_data\<close>.
\<close>

definition signed_field :: "AgentWallet \<Rightarrow> pyval \<Rightarrow> string \<Rightarrow> pyval option" where
  "signed_field w tx_data k =
     (case wallet_sign_transaction w tx_data of Inl e \<Rightarrow> None | Inr s \<Rightarrow> map_of s k)"

definition signed_body_field :: "AgentWallet \<Rightarrow> pyval \<Rightarrow> string \<Rightarrow> pyval option" where
  "signed_body_field w tx_data k =
     (case wallet_sign_transaction w tx_data of
        Inl e \<Rightarrow> None
      | Inr s \<Rightarrow> (case map_of s ''tx_data'' of Some (PDict body) \<Rightarrow> map_of body k | _ \<Rightarrow> None))"

text \<open>The value of a payload field, or the default when the payload has no such field.\<close>

definition field_or :: "pydict \<Rightarrow> string \<Rightarrow> pyval \<Rightarrow> pyval option" where
  "field_or d k dflt = Some (case map_of d k of None \<Rightarrow> dflt | Some v \<Rightarrow> v)"



text \<open>An error envelope: status \<open>error\<close> and a message.\<close>

definition is_error :: "envelope \<Rightarrow> bool" where
  "is_error env =
     (status env = Some (Val (PStr ''error''))
      \<and> (case message env of Some (Msg t) \<Rightarrow> True | _ \<Rightarrow> False))"

text \<open>The envelope that \<open>run\<close> builds from a caught exception.\<close>

definition caught :: "exc \<Rightarrow> envelope" where
  "caught e = [(''status'', Val (PStr ''error'')), (''message'', Msg (StrExc e))]"

text \<open>The names under which \<open>getattr\<close> can find something on a module object.\<close>

definition attribute_names :: "string list" where
  "attribute_names =
     methods @ [''deployment'', ''consumer_id'', ''agent'', ''__dict__'', ''__doc__'',
                ''__module__'', ''__weakref__'', ''__class__''] @ inherited"

text \<open>A message text names an operation when the name occurs in it.\<close>

fun names_operation :: "string \<Rightarrow> string \<Rightarrow> bool" where
  "names_operation [] name = (name = [])"
| "names_operation (c # cs) name = (take (length name) (c # cs) = name \<or> names_operation cs name)"

text \<open>
  A wallet with its key pair, and a module whose agent, when the attribute is still there,
  has such a wallet and has holdings.
\<close>

definition has_key :: "AgentWallet \<Rightarrow> bool" where
  "has_key w =
     (case (address w, private_key w) of
        (Some ad, Some k) \<Rightarrow> ad \<noteq> [] \<and> k \<noteq> []
      | _ \<Rightarrow> False)"

definition module_ok :: "'d EconomicAgentModule \<Rightarrow> bool" where
  "module_ok m =
     (case agent m of
        None \<Rightarrow> True
      | Some a \<Rightarrow> (case wallet a of None \<Rightarrow> False | Some w \<Rightarrow> has_key w) \<and> holdings a \<noteq> None)"

text \<open>
  The caller has no module object yet, or has one that still has its agent and the
  agent its holdings.
\<close>

definition module_ready :: "'d registry \<Rightarrow> string \<Rightarrow> bool" where
  "module_ready agents key =
     (case map_of agents key of
        None \<Rightarrow> True
      | Some m \<Rightarrow> (case agent m of None \<Rightarrow> False | Some a \<Rightarrow> holdings a \<noteq> None))"

text \<open>
  The arguments of a \<open>create\<close> request as the signature declares them: no
  \<open>initial_holdings\<close>, an empty value, or a mapping.
\<close>

definition create_input_ok :: "pyval \<Rightarrow> bool" where
  "create_input_ok data =
     (case (if truthy data then data else PDict []) of
        PDict fi \<Rightarrow>
          (case map_of fi ''initial_holdings'' of
             None \<Rightarrow> True
           | Some (PDict d) \<Rightarrow> True
           | Some v \<Rightarrow> \<not> truthy v)
      | _ \<Rightarrow> False)"

text \<open>The history and a balance of the caller's portfolio, as far as there is one.\<close>

definition history_of :: "'d registry \<Rightarrow> string \<Rightarrow> pydict list" where
  "history_of agents key =
     (case map_of agents key of
        None \<Rightarrow> []
      | Some m \<Rightarrow>
          (case agent m of
             None \<Rightarrow> []
           | Some a \<Rightarrow> (case holdings a of None \<Rightarrow> [] | Some p \<Rightarrow> transaction_history p)))"

text \<open>The id of the caller's agent, as far as there is one.\<close>

definition agent_id_of :: "'d registry \<Rightarrow> string \<Rightarrow> string option" where
  "agent_id_of agents key =
     (case map_of agents key of
        None \<Rightarrow> None
      | Some m \<Rightarrow> (case agent m of None \<Rightarrow> None | Some a \<Rightarrow> Some (agent_id a)))"

section \<open>Rounding to doubles\<close>

lemma floor_log2:
  assumes "2 powi k \<le> x" and "x < 2 powi (k + 1)"
  shows "\<lfloor>log 2 x\<rfloor> = k"
proof -
  have pos: "0 < x" using assms(1) by (smt (verit) zero_less_power_int)
  have a: "of_int k \<le> log 2 x"
    using assms(1) pos by (simp add: le_log_iff powr_real_of_int')
  have b: "log 2 x < of_int k + 1"
  proof -
    have "(2::real) powr (of_int (k + 1)) = 2 powi (k + 1)"
      by (rule powr_real_of_int') simp_all
    with assms(2) have "x < 2 powr (of_int (k + 1))" by simp
    then have "log 2 x < of_int (k + 1)" using pos by (simp add: log_less_iff)
    then show ?thesis by simp
  qed
  from a b show ?thesis by (simp add: floor_eq_iff)
qed

lemma ulp_exponent_eq:
  assumes "2 powi k \<le> \<bar>x\<bar>" and "\<bar>x\<bar> < 2 powi (k + 1)" and "- 1022 \<le> k"
  shows "ulp_exponent x = k - 52"
  using floor_log2[OF assms(1,2)] assms(3) by (simp add: ulp_exponent_def)

lemma round_half_even_int: "round_half_even (of_int k) = k"
  by (simp add: round_half_even_def)

lemma round_double_exact:
  assumes "x \<noteq> 0" and "x / 2 powi ulp_exponent x = of_int n" and "\<bar>x\<bar> < 2 ^ 1024"
  shows "round_double x = Finite x"
proof -
  have q: "(2::real) powi ulp_exponent x \<noteq> 0" by simp
  have "of_int n * 2 powi ulp_exponent x = x"
    using assms(2) q by (metis nonzero_divide_eq_eq)
  with assms show ?thesis
    by (simp add: round_double_def Let_def round_half_even_int)
qed

lemma round_double_int:
  assumes "\<bar>i\<bar> < 2 ^ 53"
  shows "round_double (of_int i) = Finite (of_int i)"
proof (cases "i = 0")
  case True
  then show ?thesis by (simp add: round_double_def)
next
  case False
  define x :: real where "x = of_int i"
  have x1: "1 \<le> \<bar>x\<bar>" using False by (simp add: x_def flip: of_int_abs)
  have x2: "\<bar>x\<bar> < 2 ^ 53" using assms by (simp add: x_def flip: of_int_abs)
  define e where "e = \<lfloor>log 2 \<bar>x\<bar>\<rfloor>"
  have e0: "0 \<le> e" using x1 by (simp add: e_def zero_le_log_cancel_iff)
  have "log 2 \<bar>x\<bar> < 53"
    using x1 x2 by (simp add: log_less_iff)
  then have e52: "e \<le> 52" by (simp add: e_def floor_le_iff)
  have u: "ulp_exponent x = e - 52" using e0 by (simp add: ulp_exponent_def e_def)
  define k where "k = nat (52 - e)"
  have q: "(2::real) powi (e - 52) = inverse (2 ^ k)"
    using e52 by (simp add: k_def power_int_def power_one_over inverse_eq_divide)
  have "x / 2 powi (e - 52) = of_int (i * 2 ^ k)"
    unfolding q by (simp add: x_def divide_inverse)
  then have d: "x / 2 powi ulp_exponent x = of_int (i * 2 ^ k)"
    by (simp only: u)
  have nz: "x \<noteq> 0" using x1 by auto
  have lt: "\<bar>x\<bar> < 2 ^ 1024"
  proof -
    have "(2::real) ^ 53 < 2 ^ 1024" by (rule power_strict_increasing) simp_all
    with x2 show ?thesis by (rule less_trans)
  qed
  from round_double_exact[OF nz d lt] show ?thesis by (simp only: x_def)
qed

lemma round_double_numeral [simp]:
  "numeral n < (2::int) ^ 53 \<Longrightarrow> round_double (numeral n) = Finite (numeral n)"
  using round_double_int[of "numeral n"] by simp

lemma round_double_neg_numeral [simp]:
  "numeral n < (2::int) ^ 53 \<Longrightarrow> round_double (- numeral n) = Finite (- numeral n)"
  using round_double_int[of "- numeral n"] by simp

lemma round_double_0 [simp]: "round_double 0 = Finite 0"
  by (simp add: round_double_def)

lemma round_double_1 [simp]: "round_double 1 = Finite 1"
  using round_double_int[of 1] by simp

lemma round_double_2_53_plus_1: "round_double 9007199254740993 = Finite 9007199254740992"
proof -
  have u: "ulp_exponent 9007199254740993 = 1"
    using ulp_exponent_eq[of 53 9007199254740993] by simp
  have r: "round_half_even (9007199254740993 / 2) = 4503599627370496"
  proof -
    have "\<lfloor>9007199254740993 / 2 :: real\<rfloor> = 4503599627370496" by (simp add: floor_eq_iff)
    then show ?thesis by (simp add: round_half_even_def)
  qed
  show ?thesis by (simp add: round_double_def u r)
qed

lemma round_double_overflow: "round_double (2 ^ 1024) = Infinity True"
proof -
  define x :: real where "x = 2 ^ 1024"
  have xp: "0 < x" "x \<noteq> 0" "\<bar>x\<bar> = x" by (simp_all add: x_def)
  have "2 powi 1024 \<le> \<bar>x\<bar>" "\<bar>x\<bar> < 2 powi (1024 + 1)" by (simp_all add: x_def)
  then have u: "ulp_exponent x = 972"
    using ulp_exponent_eq[of 1024 x] by simp
  have d: "x / 2 powi 972 = of_int (2 ^ 52)" by (simp add: x_def)
  have y: "of_int (2 ^ 52) * 2 powi 972 = x" by (simp add: x_def)
  have big: "2 ^ 1024 \<le> \<bar>x\<bar>" by (simp add: x_def)
  have "round_double x = Infinity True"
    unfolding round_double_def Let_def u d round_half_even_int y using xp big by simp
  then show ?thesis by (simp only: x_def)
qed



lemma float_of_int_small: "\<bar>i\<bar> < 2 ^ 53 \<Longrightarrow> float_of_int i = Inr (Finite (of_int i))"
  by (simp add: float_of_int_def round_double_int)

lemma float_of_int_numeral [simp]:
  "numeral n < (2::int) ^ 53 \<Longrightarrow> float_of_int (numeral n) = Inr (Finite (numeral n))"
  using float_of_int_small[of "numeral n"] by simp

lemma float_of_int_neg_numeral [simp]:
  "numeral n < (2::int) ^ 53 \<Longrightarrow> float_of_int (- numeral n) = Inr (Finite (- numeral n))"
  using float_of_int_small[of "- numeral n"] by simp

lemma float_of_int_0 [simp]: "float_of_int 0 = Inr (Finite 0)"
  using float_of_int_small[of 0] by simp

lemma float_of_int_1 [simp]: "float_of_int 1 = Inr (Finite 1)"
  using float_of_int_small[of 1] by simp

lemma float_of_int_2_53_plus_1: "float_of_int 9007199254740993 = Inr (Finite 9007199254740992)"
  by (simp add: float_of_int_def round_double_2_53_plus_1)

lemma float_of_int_overflow: "float_of_int (2 ^ 1024) = Inl OverflowError"
proof -
  have "real_of_int (2 ^ 1024) = 2 ^ 1024" by simp
  then show ?thesis
    unfolding float_of_int_def by (simp only: round_double_overflow double.case)
qed

lemma float_of_int_not_infinite: "float_of_int i \<noteq> Inr (Infinity b)"
  by (auto simp: float_of_int_def split: double.splits)

lemma round_double_2_53: "round_double 9007199254740992 = Finite 9007199254740992"
proof -
  have u: "ulp_exponent 9007199254740992 = 1"
    using ulp_exponent_eq[of 53 9007199254740992] by simp
  show ?thesis by (rule round_double_exact[where n=4503599627370496]) (simp_all add: u)
qed

lemma py_float_number: "to_double v = Inr x \<Longrightarrow> py_float pf v = Inr x"
  by (cases v) simp_all

lemma key_eq_str: "key_eq k (PStr s) = (k = PStr s)"
  by (simp add: key_eq_def split: option.splits)

lemma dict_lookup_str: "dict_lookup b (PStr s) = map_of b (PStr s)"
  by (induction b) (auto simp: key_eq_str)

lemma dict_get_str:
  "dict_get b (PStr s) dflt = Inr (case map_of b (PStr s) of None \<Rightarrow> dflt | Some v \<Rightarrow> v)"
  by (simp add: dict_get_def dict_lookup_str)

lemma dict_set_str: "dict_set b (PStr s) v = AList.update (PStr s) v b"
  by (induction b) (auto simp: key_eq_str)

lemma key_eq_refl: "hashable k \<Longrightarrow> k \<noteq> PFloat NaN \<Longrightarrow> key_eq k k"
  by (cases k) (auto simp: key_eq_def)

lemma dict_lookup_set:
  "key_eq k k \<Longrightarrow> dict_lookup (dict_set b k v) k = Some v"
  by (induction b) auto

section \<open>Portfolio value\<close>






section \<open>The balance invariant\<close>

lemma float_sum_snoc:
  "float_sum s (h @ [tx]) =
     (if map_of tx ''symbol'' = Some s then double_add (float_sum s h) (float_amount tx)
      else float_sum s h)"
  by (simp add: float_sum_def)

lemma map_of_alist_update:
  "map_of (AList.update k v al) k' = (if k' = k then Some v else map_of al k')"
  by (simp add: update_conv')

lemma record_transaction_step:
  assumes b: "balanced p"
    and t: "map_of tx ''symbol'' = Some (PStr s)" "map_of tx ''amount'' = Some v"
      "to_double v = Inr x"
  shows "\<exists>p'. record_transaction pf p tx = (p', None)
           \<and> transaction_history p' = transaction_history p @ [tx]
           \<and> get_token_balance p' (PStr s)
               = Inr (PFloat (double_add (float_sum (PStr s) (transaction_history p)) x))
           \<and> balanced p'"
proof -
  let ?c = "float_sum (PStr s) (transaction_history p)"
  have g: "get_token_balance p (PStr s) = Inr (PFloat ?c)"
    using b by (simp add: balanced_def)
  then have dg: "dict_get (token_balances p) (PStr s) (PFloat (Finite 0)) = Inr (PFloat ?c)"
    by (simp add: get_token_balance_def)
  have fa: "float_amount tx = x" using t by (simp add: float_amount_def)
  let ?p' = "p\<lparr>transaction_history := transaction_history p @ [tx],
                token_balances := AList.update (PStr s) (PFloat (double_add ?c x)) (token_balances p)\<rparr>"
  have r: "record_transaction pf p tx = (?p', None)"
    using t dg py_float_number[OF t(3), of pf]
    by (simp add: record_transaction_def adjust_token_balance_def py_add_float_def dict_set_str Let_def)
  have bal: "balanced ?p'"
    unfolding balanced_def
  proof
    fix s'
    show "get_token_balance ?p' (PStr s')
            = Inr (PFloat (float_sum (PStr s') (transaction_history ?p')))"
    proof (cases "s' = s")
      case True
      then show ?thesis using t fa
        by (simp add: get_token_balance_def dict_get_str map_of_alist_update float_sum_snoc)
    next
      case False
      have "get_token_balance p (PStr s') = Inr (PFloat (float_sum (PStr s') (transaction_history p)))"
        using b by (simp add: balanced_def)
      then show ?thesis using False t
        by (simp add: get_token_balance_def dict_get_str map_of_alist_update float_sum_snoc)
    qed
  qed
  have gb: "get_token_balance ?p' (PStr s) = Inr (PFloat (double_add ?c x))"
    by (simp add: get_token_balance_def dict_get_str map_of_alist_update)
  show ?thesis using r bal gb by simp
qed

lemma is_transactionE:
  "is_transaction tx \<Longrightarrow>
     \<exists>s v x. map_of tx ''symbol'' = Some (PStr s) \<and> map_of tx ''amount'' = Some v
             \<and> to_double v = Inr x"
  by (auto simp: is_transaction_def split: option.splits pyval.splits sum.splits)

lemma record_all_invariant:
  "balanced p \<Longrightarrow> list_all is_transaction txs \<Longrightarrow>
     balanced (record_all pf p txs)
     \<and> transaction_history (record_all pf p txs) = transaction_history p @ txs"
proof (induction txs arbitrary: p)
  case Nil
  then show ?case by simp
next
  case (Cons tx txs)
  from Cons.prems obtain s v x where
    t: "map_of tx ''symbol'' = Some (PStr s)" "map_of tx ''amount'' = Some v" "to_double v = Inr x"
    using is_transactionE by fastforce
  from record_transaction_step[OF Cons.prems(1) t, of pf] obtain p' where
    p': "record_transaction pf p tx = (p', None)"
        "transaction_history p' = transaction_history p @ [tx]" "balanced p'"
    by blast
  from Cons.IH[OF p'(3)] Cons.prems(2) p' show ?case by simp
qed

lemma float_sum_unseen:
  "\<forall>tx \<in> set h. map_of tx ''symbol'' \<noteq> Some s \<Longrightarrow> float_sum s h = Finite 0"
  by (induction h) (auto simp: float_sum_def)

text \<open>
  C1, as stated, fails: the balance is a double and the amounts need not be. After the
  transaction with the \<open>int\<close> amount 9007199254740993 has been recorded in an empty
  portfolio, the balance is 9007199254740992.0 and the sum of the recorded amounts is
  9007199254740993.
\<close>

theorem record_transaction_sum_counterexample:
  "get_token_balance
     (fst (record_transaction (\<lambda>s. None) \<lparr>token_balances = [], transaction_history = []\<rparr>
             [(''type'', PStr ''deposit''), (''symbol'', PStr ''ETH''),
              (''amount'', PInt 9007199254740993)]))
     (PStr ''ETH'') = Inr (PFloat (Finite 9007199254740992))
   \<and> exact_sum (PStr ''ETH'')
       (transaction_history
          (fst (record_transaction (\<lambda>s. None) \<lparr>token_balances = [], transaction_history = []\<rparr>
                  [(''type'', PStr ''deposit''), (''symbol'', PStr ''ETH''),
                   (''amount'', PInt 9007199254740993)])))
       = 9007199254740993"
  by (simp add: record_transaction_def adjust_token_balance_def py_add_float_def dict_get_str
        dict_set_str get_token_balance_def float_of_int_2_53_plus_1 round_double_2_53
        exact_sum_def exact_amount_def)

text \<open>
  C1, amended. Start from a portfolio whose balances are the per-symbol sums of its
  history, the amounts converted by \<open>float\<close> and added up in doubles in the order of the
  history, and record any sequence of transactions (dictionaries with a string \<open>symbol\<close>
  and an \<open>amount\<close> that \<open>float\<close> converts) through \<open>record_transaction\<close>. Then every call
  returns normally having appended its transaction, the history is the old one followed
  by the sequence, the balance of every symbol is again that sum over the recorded
  amounts for the symbol, and a symbol with no entry in the history has balance 0.0. A
  single call appends the transaction and adds the converted amount to the balance of its
  symbol, in double arithmetic, in the same step.
\<close>

theorem record_transaction_keeps_balances:
  assumes "balanced p" and "list_all is_transaction txs"
  shows "transaction_history (record_all pf p txs) = transaction_history p @ txs
       \<and> (\<forall>s. get_token_balance (record_all pf p txs) (PStr s)
                = Inr (PFloat (float_sum (PStr s) (transaction_history p @ txs))))
       \<and> (\<forall>s. (\<forall>tx \<in> set (transaction_history p @ txs). map_of tx ''symbol'' \<noteq> Some (PStr s))
                \<longrightarrow> get_token_balance (record_all pf p txs) (PStr s) = Inr (PFloat (Finite 0)))
       \<and> (\<forall>tx s v x. map_of tx ''symbol'' = Some (PStr s) \<and> map_of tx ''amount'' = Some v
                        \<and> to_double v = Inr x
                \<longrightarrow> (\<exists>p'. record_transaction pf p tx = (p', None)
                       \<and> transaction_history p' = transaction_history p @ [tx]
                       \<and> get_token_balance p' (PStr s)
                           = Inr (PFloat (double_add
                                   (float_sum (PStr s) (transaction_history p)) x))))"
proof -
  from record_all_invariant[OF assms, of pf]
  have b: "balanced (record_all pf p txs)"
    and h: "transaction_history (record_all pf p txs) = transaction_history p @ txs"
    by simp_all
  from b h have sums: "\<forall>s. get_token_balance (record_all pf p txs) (PStr s)
                = Inr (PFloat (float_sum (PStr s) (transaction_history p @ txs)))"
    by (simp add: balanced_def)
  have unseen: "\<forall>s. (\<forall>tx \<in> set (transaction_history p @ txs). map_of tx ''symbol'' \<noteq> Some (PStr s))
                \<longrightarrow> get_token_balance (record_all pf p txs) (PStr s) = Inr (PFloat (Finite 0))"
    using sums float_sum_unseen by metis
  have one: "\<forall>tx s v x. map_of tx ''symbol'' = Some (PStr s) \<and> map_of tx ''amount'' = Some v
                        \<and> to_double v = Inr x
                \<longrightarrow> (\<exists>p'. record_transaction pf p tx = (p', None)
                       \<and> transaction_history p' = transaction_history p @ [tx]
                       \<and> get_token_balance p' (PStr s)
                           = Inr (PFloat (double_add
                                   (float_sum (PStr s) (transaction_history p)) x)))"
    using record_transaction_step[OF assms(1)] by blast
  show ?thesis using h sums unseen one by blast
qed

text \<open>
  Outside the data model: when the amount is not a number, or is an \<open>int\<close> beyond the
  range of the doubles, \<open>float\<close> raises after the append, so the history has grown and no
  balance has changed.
\<close>

lemma record_transaction_amount_not_number:
  "record_transaction pf p [(''symbol'', PStr ''ETH''), (''amount'', PNone)]
     = (p\<lparr>transaction_history :=
            transaction_history p @ [[(''symbol'', PStr ''ETH''), (''amount'', PNone)]]\<rparr>,
        Some TypeError)"
  by (simp add: record_transaction_def)

lemma record_transaction_amount_overflow:
  assumes "map_of tx ''symbol'' = Some k" and "map_of tx ''amount'' = Some (PInt i)"
    and "float_of_int i = Inl e"
  shows "record_transaction pf p tx
           = (p\<lparr>transaction_history := transaction_history p @ [tx]\<rparr>, Some e)"
  using assms by (simp add: record_transaction_def)

lemma balanced_empty: "balanced \<lparr>token_balances = [], transaction_history = []\<rparr>"
  by (simp add: balanced_def get_token_balance_def dict_get_str float_sum_def)

theorem record_transaction_keeps_balances_witness:
  "balanced \<lparr>token_balances = [], transaction_history = []\<rparr>
   \<and> list_all is_transaction
       [[(''type'', PStr ''deposit''), (''symbol'', PStr ''ETH''), (''amount'', PInt 2)],
        [(''type'', PStr ''trade''), (''symbol'', PStr ''ETH''), (''amount'', PFloat (Finite (-1)))]]
   \<and> get_token_balance
       (record_all (\<lambda>s. None) \<lparr>token_balances = [], transaction_history = []\<rparr>
         [[(''type'', PStr ''deposit''), (''symbol'', PStr ''ETH''), (''amount'', PInt 2)],
          [(''type'', PStr ''trade''), (''symbol'', PStr ''ETH''), (''amount'', PFloat (Finite (-1)))]])
       (PStr ''ETH'') = Inr (PFloat (Finite 1))"
proof -
  let ?txs = "[[(''type'', PStr ''deposit''), (''symbol'', PStr ''ETH''), (''amount'', PInt 2)],
        [(''type'', PStr ''trade''), (''symbol'', PStr ''ETH''), (''amount'', PFloat (Finite (-1)))]]"
  have t: "list_all is_transaction ?txs"
    by (simp add: is_transaction_def)
  have s: "float_sum (PStr ''ETH'') ?txs = Finite 1"
    by (simp add: float_sum_def float_amount_def)
  from record_transaction_keeps_balances[OF balanced_empty t, of "\<lambda>s. None"]
  have "get_token_balance (record_all (\<lambda>s. None) \<lparr>token_balances = [], transaction_history = []\<rparr> ?txs)
          (PStr ''ETH'') = Inr (PFloat (float_sum (PStr ''ETH'') ?txs))"
    by simp
  with s t balanced_empty show ?thesis by simp
qed

section \<open>Signing\<close>

text \<open>
  C6, as stated, fails: a \<open>chainId\<close> in the payload is not taken over, the formatted body
  always carries chain id 1.
\<close>

theorem sign_transaction_chainId_counterexample:
  "signed_body_field \<lparr>chain = ''ethereum'', address = Some ''0xA'', private_key = Some ''k''\<rparr>
     (PDict [(''chainId'', PInt 5)]) ''chainId'' \<noteq> Some (PInt 5)"
  by (simp add: signed_body_field_def wallet_sign_transaction_def format_transaction_def)

text \<open>
  C6, amended. For every wallet and every payload dictionary, \<open>AgentWallet.sign_transaction\<close>
  returns a record with the signed flag, the wallet's chain, the wallet's address and a
  formatted body. In the body \<open>from\<close> is always the wallet's address and \<open>chainId\<close> is always
  1, whatever the payload holds; \<open>to\<close>, \<open>value\<close>, \<open>data\<close>, \<open>nonce\<close>, \<open>gas\<close>, \<open>maxFeePerGas\<close>
  and \<open>maxPriorityFeePerGas\<close> are the payload's values when present and otherwise \<open>None\<close>,
  0, "0x", 0, 21000, 20000000000 and 1500000000. The result depends on the wallet and the
  payload only and no state is returned.
\<close>

theorem sign_transaction_fields:
  "signed_field w (PDict d) ''signed'' = Some (PInt 1)
   \<and> signed_field w (PDict d) ''chain'' = Some (PStr (chain w))
   \<and> signed_field w (PDict d) ''address'' = Some (opt_str (address w))
   \<and> signed_field w (PDict d) ''chainId'' = Some (PInt 1)
   \<and> signed_body_field w (PDict d) ''from'' = Some (opt_str (address w))
   \<and> signed_body_field w (PDict d) ''chainId'' = Some (PInt 1)
   \<and> signed_body_field w (PDict d) ''to'' = field_or d ''to'' PNone
   \<and> signed_body_field w (PDict d) ''value'' = field_or d ''value'' (PInt 0)
   \<and> signed_body_field w (PDict d) ''data'' = field_or d ''data'' (PStr ''0x'')
   \<and> signed_body_field w (PDict d) ''nonce'' = field_or d ''nonce'' (PInt 0)
   \<and> signed_body_field w (PDict d) ''gas'' = field_or d ''gas'' (PInt 21000)
   \<and> signed_body_field w (PDict d) ''maxFeePerGas'' = field_or d ''maxFeePerGas'' (PInt 20000000000)
   \<and> signed_body_field w (PDict d) ''maxPriorityFeePerGas''
       = field_or d ''maxPriorityFeePerGas'' (PInt 1500000000)"
  by (simp add: signed_field_def signed_body_field_def wallet_sign_transaction_def
        format_transaction_def field_or_def)

section \<open>Validation in add_transaction\<close>






section \<open>Withdrawals and trades of a non-negative amount\<close>

lemma nonnegative_not_less: "nonnegative v \<Longrightarrow> py_less v (PInt 0) = Inr False"
  by (auto simp: nonnegative_def py_less_def split: option.splits double.splits)

lemma balance_check_nonnegative:
  assumes "map_of d ''amount'' = Some v" and "nonnegative v"
  shows "balance_check a d = Inr None"
  using assms nonnegative_not_less[OF assms(2)] by (simp add: balance_check_def tx_get_def)

lemma dict_get_set:
  "hashable k \<Longrightarrow> k \<noteq> PFloat NaN \<Longrightarrow> dict_get (dict_set b k v) k dflt = Inr v"
  by (simp add: dict_get_def dict_lookup_set key_eq_refl)

text \<open>
  A withdrawal or trade of an \<open>int\<close> amount beyond the range of the doubles passes the
  validation, is appended to the history, and then \<open>float\<close> raises: the answer of
  \<open>add_transaction\<close> is the exception, not a success envelope, and no balance has changed.
\<close>

lemma add_transaction_overflow:
  assumes "agent m = Some a" and "holdings a = Some p"
    and "map_of d ''type'' = Some t" and "t = PStr ''withdraw'' \<or> t = PStr ''trade''"
    and "map_of d ''symbol'' = Some symb"
    and "map_of d ''amount'' = Some (PInt i)" and "0 \<le> i"
    and "float_of_int i = Inl e"
  shows "add_transaction pf m (PDict d)
           = (m\<lparr>agent := Some (a\<lparr>holdings :=
                   Some (p\<lparr>transaction_history := transaction_history p @ [d]\<rparr>)\<rparr>)\<rparr>,
              Inl e)"
proof -
  have ne: "d \<noteq> []" using assms(3) by auto
  have shape: "tx_shape_ok (PDict d)" using assms(3,5,6) ne by simp
  have ty: "tx_get d ''type'' PNone \<in> set tx_types"
    using assms(3,4) by (auto simp: tx_get_def tx_types_def)
  have nn: "nonnegative (PInt i)" using assms(7) by (simp add: nonnegative_def)
  have bc: "balance_check a d = Inr None"
    by (rule balance_check_nonnegative[OF assms(6) nn])
  have rt: "record_transaction pf p d
              = (p\<lparr>transaction_history := transaction_history p @ [d]\<rparr>, Some e)"
    using assms(5,6,8) by (simp add: record_transaction_def)
  have at: "agent_add_transaction pf a d
              = (a\<lparr>holdings := Some (p\<lparr>transaction_history := transaction_history p @ [d]\<rparr>)\<rparr>,
                 Some e)"
    using assms(2) rt by (simp add: agent_add_transaction_def)
  show ?thesis
    using assms(1) shape ty bc at
    by (simp add: add_transaction_def model_truthy_def del: tx_shape_ok.simps)
qed

lemma round_double_absorbs:
  "round_double 10000000000000001 = Finite 10000000000000000"
proof -
  have u: "ulp_exponent 10000000000000001 = 1"
    using ulp_exponent_eq[of 53 10000000000000001] by simp
  have f: "\<lfloor>10000000000000001 / (2::real)\<rfloor> = 5000000000000000"
    by (simp add: floor_eq_iff)
  have r: "round_half_even (10000000000000001 / 2) = 5000000000000000"
    by (simp add: round_half_even_def f Let_def)
  show ?thesis by (simp add: round_double_def u r Let_def)
qed

text \<open>
  C4, as stated, fails in both of its last parts. A withdrawal of the \<open>int\<close> amount
  \<open>2 ^ 1024\<close>, which is not negative, is not answered with a success envelope: the
  transaction is appended to the history and the conversion of the amount raises
  \<open>OverflowError\<close>. And a withdrawal of 1.0 from a balance of 1e16 is answered with success
  and leaves the balance at 1e16.
\<close>

theorem add_transaction_nonnegative_counterexample:
  "nonnegative (PInt (2 ^ 1024))
   \<and> add_transaction (\<lambda>s. None)
       \<lparr>deployment = Some (), consumer_id = Some ''alice'',
        agent = Some \<lparr>agent_id = ''id-1'', rewards = [], total_reward = Finite 0, wallet = None,
                      holdings = Some \<lparr>token_balances = [], transaction_history = []\<rparr>\<rparr>\<rparr>
       (PDict [(''type'', PStr ''withdraw''), (''symbol'', PStr ''ETH''),
               (''amount'', PInt (2 ^ 1024))])
     = (\<lparr>deployment = Some (), consumer_id = Some ''alice'',
         agent = Some \<lparr>agent_id = ''id-1'', rewards = [], total_reward = Finite 0, wallet = None,
                       holdings = Some \<lparr>token_balances = [],
                          transaction_history =
                            [[(''type'', PStr ''withdraw''), (''symbol'', PStr ''ETH''),
                              (''amount'', PInt (2 ^ 1024))]]\<rparr>\<rparr>\<rparr>,
        Inl OverflowError)
   \<and> nonnegative (PFloat (Finite 1))
   \<and> (case add_transaction (\<lambda>s. None)
             \<lparr>deployment = Some (), consumer_id = Some ''alice'',
              agent = Some \<lparr>agent_id = ''id-1'', rewards = [], total_reward = Finite 0,
                            wallet = None,
                            holdings = Some \<lparr>token_balances =
                                               [(PStr ''ETH'', PFloat (Finite 10000000000000000))],
                                             transaction_history = []\<rparr>\<rparr>\<rparr>
             (PDict [(''type'', PStr ''withdraw''), (''symbol'', PStr ''ETH''),
                     (''amount'', PFloat (Finite 1))]) of
        (m', r) \<Rightarrow>
          r = Inr [(''status'', Val (PStr ''success'')),
                   (''transaction'',
                      Val (PDict [(''type'', PStr ''withdraw''), (''symbol'', PStr ''ETH''),
                                  (''amount'', PFloat (Finite 1))]))]
          \<and> module_get_token_balance m' (PStr ''ETH'')
              = Inr [(''status'', Val (PStr ''success'')), (''symbol'', Val (PStr ''ETH'')),
                     (''balance'', Val (PFloat (Finite 10000000000000000)))])"
proof -
  define i :: int where "i = 2 ^ 1024"
  have ov: "float_of_int i = Inl OverflowError"
    unfolding i_def by (rule float_of_int_overflow)
  have pos: "0 \<le> i" unfolding i_def by simp
  let ?p = "\<lparr>token_balances = [], transaction_history = []\<rparr>"
  let ?a = "\<lparr>agent_id = ''id-1'', rewards = [], total_reward = Finite 0, wallet = None,
             holdings = Some ?p\<rparr>"
  let ?m = "\<lparr>deployment = Some (), consumer_id = Some ''alice'', agent = Some ?a\<rparr>"
  let ?d = "[(''type'', PStr ''withdraw''), (''symbol'', PStr ''ETH''), (''amount'', PInt i)]"
  have one: "add_transaction (\<lambda>s. None) ?m (PDict ?d)
           = (?m\<lparr>agent := Some (?a\<lparr>holdings :=
                   Some (?p\<lparr>transaction_history := transaction_history ?p @ [?d]\<rparr>)\<rparr>)\<rparr>,
              Inl OverflowError)"
    by (rule add_transaction_overflow[where t="PStr ''withdraw''" and symb="PStr ''ETH''" and i=i])
       (simp_all add: ov pos)
  have nn: "nonnegative (PInt i)" using pos by (simp add: nonnegative_def)
  have two: "nonnegative (PFloat (Finite 1))" by (simp add: nonnegative_def)
  let ?d2 = "[(''type'', PStr ''withdraw''), (''symbol'', PStr ''ETH''),
              (''amount'', PFloat (Finite 1))]"
  have bc: "\<And>a. balance_check a ?d2 = Inr None"
    by (rule balance_check_nonnegative[where v="PFloat (Finite 1)"]) (simp_all add: two)
  have three: "(case add_transaction (\<lambda>s. None)
             \<lparr>deployment = Some (), consumer_id = Some ''alice'',
              agent = Some \<lparr>agent_id = ''id-1'', rewards = [], total_reward = Finite 0,
                            wallet = None,
                            holdings = Some \<lparr>token_balances =
                                               [(PStr ''ETH'', PFloat (Finite 10000000000000000))],
                                             transaction_history = []\<rparr>\<rparr>\<rparr>
             (PDict ?d2) of
        (m', r) \<Rightarrow>
          r = Inr [(''status'', Val (PStr ''success'')), (''transaction'', Val (PDict ?d2))]
          \<and> module_get_token_balance m' (PStr ''ETH'')
              = Inr [(''status'', Val (PStr ''success'')), (''symbol'', Val (PStr ''ETH'')),
                     (''balance'', Val (PFloat (Finite 10000000000000000)))])"
    by (simp add: add_transaction_def model_truthy_def tx_get_def tx_types_def bc
          agent_add_transaction_def record_transaction_def adjust_token_balance_def
          py_add_float_def dict_get_str dict_set_str round_double_absorbs
          module_get_token_balance_def agent_get_token_balance_def get_token_balance_def)
  from one nn two three show ?thesis unfolding i_def by simp
qed

text \<open>
  C4, amended. A withdrawal or trade that has the three keys, a non-negative amount that
  \<open>float\<close> converts (a float, or an \<open>int\<close> within the range of the doubles) and a symbol
  that can be a dictionary key, on a portfolio whose balance for the symbol is such a
  number too, passes \<open>add_transaction\<close> without a balance check, whatever that balance
  is: the answer is the success envelope echoing the transaction, the transaction is
  appended to the history, and the balance of its symbol becomes the double nearest to the
  sum of the old balance and the amount, both taken as doubles (so the balance does not
  decrease, and grows by the amount up to rounding).
\<close>

theorem add_transaction_nonnegative:
  assumes "agent m = Some a" and "holdings a = Some p"
    and "map_of d ''type'' = Some t" and "t = PStr ''withdraw'' \<or> t = PStr ''trade''"
    and "map_of d ''symbol'' = Some symb" and "hashable symb" and "symb \<noteq> PFloat NaN"
    and "map_of d ''amount'' = Some v" and "nonnegative v" and "to_double v = Inr x"
    and "get_token_balance p symb = Inr cur" and "to_double cur = Inr c"
  shows "balance_check a d = Inr None
       \<and> (\<exists>p'. add_transaction pf m (PDict d)
                 = (m\<lparr>agent := Some (a\<lparr>holdings := Some p'\<rparr>)\<rparr>,
                    Inr [(''status'', Val (PStr ''success'')), (''transaction'', Val (PDict d))])
              \<and> transaction_history p' = transaction_history p @ [d]
              \<and> get_token_balance p' symb = Inr (PFloat (double_add c x)))"
proof -
  have ne: "d \<noteq> []" using assms(3) by auto
  have shape: "tx_shape_ok (PDict d)" using assms(3,5,8) ne by simp
  have ty: "tx_get d ''type'' PNone \<in> set tx_types"
    using assms(3,4) by (auto simp: tx_get_def tx_types_def)
  have bc: "balance_check a d = Inr None"
    by (rule balance_check_nonnegative[OF assms(8,9)])
  let ?p' = "p\<lparr>transaction_history := transaction_history p @ [d],
                token_balances := dict_set (token_balances p) symb (PFloat (double_add c x))\<rparr>"
  have dg: "dict_get (token_balances p) symb (PFloat (Finite 0)) = Inr cur"
    using assms(11) by (simp add: get_token_balance_def)
  have rt: "record_transaction pf p d = (?p', None)"
    using assms(5,8,12) dg py_float_number[OF assms(10), of pf]
    by (simp add: record_transaction_def adjust_token_balance_def py_add_float_def Let_def)
  have at: "agent_add_transaction pf a d = (a\<lparr>holdings := Some ?p'\<rparr>, None)"
    using assms(2) rt by (simp add: agent_add_transaction_def)
  have res: "add_transaction pf m (PDict d)
                 = (m\<lparr>agent := Some (a\<lparr>holdings := Some ?p'\<rparr>)\<rparr>,
                    Inr [(''status'', Val (PStr ''success'')), (''transaction'', Val (PDict d))])"
    using assms(1) shape ty bc at
    by (simp add: add_transaction_def model_truthy_def del: tx_shape_ok.simps)
  have gb: "get_token_balance ?p' symb = Inr (PFloat (double_add c x))"
    using dict_get_set[OF assms(6,7)] by (simp add: get_token_balance_def)
  have hist: "transaction_history ?p' = transaction_history p @ [d]" by simp
  show ?thesis using bc res gb hist by blast
qed

theorem add_transaction_nonnegative_witness:
  "get_token_balance \<lparr>token_balances = [(PStr ''ETH'', PFloat (Finite 1))], transaction_history = []\<rparr>
     (PStr ''ETH'') = Inr (PFloat (Finite 1))
   \<and> nonnegative (PInt 50) \<and> to_double (PInt 50) = Inr (Finite 50)
   \<and> balance_check
        \<lparr>agent_id = ''id-1'', rewards = [], total_reward = Finite 0, wallet = None,
         holdings = Some \<lparr>token_balances = [(PStr ''ETH'', PFloat (Finite 1))],
                          transaction_history = []\<rparr>\<rparr>
        [(''type'', PStr ''withdraw''), (''symbol'', PStr ''ETH''), (''amount'', PInt 50)] = Inr None
   \<and> (\<exists>p'. add_transaction (\<lambda>s. None)
         \<lparr>deployment = Some (), consumer_id = Some ''alice'',
          agent = Some \<lparr>agent_id = ''id-1'', rewards = [], total_reward = Finite 0, wallet = None,
                    holdings = Some \<lparr>token_balances = [(PStr ''ETH'', PFloat (Finite 1))],
                                     transaction_history = []\<rparr>\<rparr>\<rparr>
         (PDict [(''type'', PStr ''withdraw''), (''symbol'', PStr ''ETH''), (''amount'', PInt 50)])
       = (\<lparr>deployment = Some (), consumer_id = Some ''alice'',
           agent = Some \<lparr>agent_id = ''id-1'', rewards = [], total_reward = Finite 0, wallet = None,
                         holdings = Some p'\<rparr>\<rparr>,
          Inr [(''status'', Val (PStr ''success'')),
               (''transaction'',
                  Val (PDict [(''type'', PStr ''withdraw''), (''symbol'', PStr ''ETH''),
                              (''amount'', PInt 50)]))])
       \<and> get_token_balance p' (PStr ''ETH'') = Inr (PFloat (Finite 51)))"
proof -
  let ?p = "\<lparr>token_balances = [(PStr ''ETH'', PFloat (Finite 1))], transaction_history = []\<rparr>"
  let ?a = "\<lparr>agent_id = ''id-1'', rewards = [], total_reward = Finite 0, wallet = None,
             holdings = Some ?p\<rparr>"
  let ?m = "\<lparr>deployment = Some (), consumer_id = Some ''alice'', agent = Some ?a\<rparr>"
  let ?d = "[(''type'', PStr ''withdraw''), (''symbol'', PStr ''ETH''), (''amount'', PInt 50)]"
  have g: "get_token_balance ?p (PStr ''ETH'') = Inr (PFloat (Finite 1))"
    by (simp add: get_token_balance_def dict_get_str)
  have n: "nonnegative (PInt 50)" by (simp add: nonnegative_def)
  have t: "to_double (PInt 50) = Inr (Finite 50)" by simp
  have "balance_check ?a ?d = Inr None
       \<and> (\<exists>p'. add_transaction (\<lambda>s. None) ?m (PDict ?d)
                 = (?m\<lparr>agent := Some (?a\<lparr>holdings := Some p'\<rparr>)\<rparr>,
                    Inr [(''status'', Val (PStr ''success'')), (''transaction'', Val (PDict ?d))])
              \<and> transaction_history p' = transaction_history ?p @ [?d]
              \<and> get_token_balance p' (PStr ''ETH'') = Inr (PFloat (double_add (Finite 1) (Finite 50))))"
    by (rule add_transaction_nonnegative[where t="PStr ''withdraw''" and v="PInt 50"
          and cur="PFloat (Finite 1)" and p="?p"])
       (simp_all add: g n)
  with g n t show ?thesis by auto
qed

section \<open>Unknown operations and caught exceptions\<close>

lemma py_getattr_not_attribute:
  "name \<notin> set attribute_names \<Longrightarrow> py_getattr m name = Inl (AttributeError ''EconomicAgentModule'' name)"
  by (simp add: py_getattr_def attribute_names_def)

lemma py_getattr_Method:
  "py_getattr m name = Inr (Method n) \<Longrightarrow> name \<in> set methods"
  by (auto simp: py_getattr_def split: if_splits option.splits)

lemma dispatch_unsupported:
  assumes "name \<notin> set methods"
  shows "(\<exists>m' e. dispatch pf m name data = (m', Inl e))
       \<or> dispatch pf m name data
           = (m, Inr [(''status'', Val (PStr ''error'')),
                      (''message'', Msg (Text (''Invalid function name: '' @ name)))])"
proof (cases "py_getattr m name")
  case (Inl e)
  then show ?thesis by (simp add: dispatch_def)
next
  case (Inr v)
  have four: "name \<noteq> ''create''" "name \<noteq> ''add_transaction''" "name \<noteq> ''get_token_balance''"
    "name \<noteq> ''get_portfolio_value''"
    using assms by (auto simp: methods_def)
  show ?thesis
  proof (cases v)
    case (Method n)
    with Inr assms py_getattr_Method show ?thesis by blast
  next
    case (Plain t T)
    with Inr four show ?thesis by (cases t) (simp_all add: dispatch_def call_method_def)
  next
    case ClassObject
    with Inr four show ?thesis by (simp add: dispatch_def call_method_def)
  next
    case (Inherited n)
    with Inr four show ?thesis by (simp add: dispatch_def call_method_def split: prod.splits)
  qed
qed

lemma run_result:
  "snd (run h agents (Inr r)) =
     (case snd (dispatch (parse_float h)
                 (case map_of agents (caller r) of
                    None \<Rightarrow> EconomicAgentModule_init h (run_deployment r) (caller r)
                  | Some m \<Rightarrow> m)
                 (func_name r) (func_input_data r)) of
        Inl e \<Rightarrow> caught e
      | Inr env \<Rightarrow> env)"
  by (simp add: run_def caught_def Let_def split: prod.splits sum.splits)

lemma names_operation_infix: "names_operation (pre @ name @ post) name"
proof (induction pre)
  case Nil
  show ?case
  proof (cases "name @ post")
    case Nil
    then show ?thesis by simp
  next
    case (Cons a list)
    have "take (length name) (name @ post) = name" by simp
    with Cons show ?thesis by simp
  qed
next
  case (Cons c pre)
  then show ?case by simp
qed

text \<open>
  Every request whose operation name is not a supported operation is answered with an
  error envelope; when the name is not an attribute of the module object at all, the
  message is the text of the \<open>AttributeError\<close>, which names the operation. \<open>run\<close> does
  not raise: an exception raised on the dispatch path, or by the validation of the
  request, becomes the error envelope carrying the exception's message.
\<close>

lemma run_unsupported_is_error:
  assumes "func_name r \<notin> set methods"
  shows "is_error (snd (run h agents (Inr r)))
       \<and> (func_name r \<notin> set attribute_names \<longrightarrow>
            snd (run h agents (Inr r)) = caught (AttributeError ''EconomicAgentModule'' (func_name r))
            \<and> names_operation (the (str_exc (AttributeError ''EconomicAgentModule'' (func_name r))))
                 (func_name r))
       \<and> (\<forall>e. snd (dispatch (parse_float h)
                      (case map_of agents (caller r) of
                         None \<Rightarrow> EconomicAgentModule_init h (run_deployment r) (caller r)
                       | Some m \<Rightarrow> m)
                      (func_name r) (func_input_data r)) = Inl e
              \<longrightarrow> snd (run h agents (Inr r)) = caught e)
       \<and> (\<forall>e. run h agents (Inl e) = (agents, caught e))"
proof -
  let ?m = "case map_of agents (caller r) of
              None \<Rightarrow> EconomicAgentModule_init h (run_deployment r) (caller r)
            | Some m \<Rightarrow> m"
  have err: "is_error (snd (run h agents (Inr r)))"
    using dispatch_unsupported[OF assms, of "parse_float h" ?m "func_input_data r"]
    by (auto simp: run_result is_error_def status_def message_def caught_def)
  have attr: "func_name r \<notin> set attribute_names \<longrightarrow>
      snd (run h agents (Inr r)) = caught (AttributeError ''EconomicAgentModule'' (func_name r))"
    by (simp add: run_result dispatch_def py_getattr_not_attribute)
  have nm: "names_operation (the (str_exc (AttributeError ''EconomicAgentModule'' (func_name r))))
              (func_name r)"
    using names_operation_infix[of "[CHR 0x27] @ ''EconomicAgentModule'' @ [CHR 0x27]
              @ '' object has no attribute '' @ [CHR 0x27]" "func_name r" "[CHR 0x27]"]
    by simp
  have ex: "\<forall>e. snd (dispatch (parse_float h) ?m (func_name r) (func_input_data r)) = Inl e
              \<longrightarrow> snd (run h agents (Inr r)) = caught e"
    by (simp add: run_result)
  have inv: "\<forall>e. run h agents (Inl e) = (agents, caught e)"
    by (simp add: run_def caught_def)
  show ?thesis using err attr nm ex inv by blast
qed

text \<open>
  C7 does not hold of the program. \<open>run\<close> looks the operation up with \<open>getattr\<close> and
  tests \<open>if not method\<close> to answer \<open>Invalid function name\<close>; for the name \<open>agent\<close>,
  which is an attribute of the module object and not an operation, the lookup finds the
  agent, the test does not fire because the agent is true, the agent is called, and the
  caught \<open>TypeError\<close> gives the answer. The envelope for the request \<open>agent\<close> is an error
  envelope whose message is \<open>'EconomicAgent' object is not callable\<close>: it is not
  \<open>Invalid function name: agent\<close>, and it does not name the operation.
\<close>

theorem run_agent_not_callable:
  "snd (run \<lparr>parse_float = (\<lambda>s. None), new_id = ''id-1'', account_key = ''0xk'',
             account_address = ''0xA''\<rparr> []
          (Inr \<lparr>caller = ''alice'', run_deployment = (), func_name = ''agent'',
                func_input_data = PNone\<rparr>))
     = [(''status'', Val (PStr ''error'')),
        (''message'', Msg (StrExc (NotCallable ''EconomicAgent'')))]
   \<and> str_exc (NotCallable ''EconomicAgent'')
       = Some ([CHR 0x27] @ ''EconomicAgent'' @ [CHR 0x27] @ '' object is not callable'')
   \<and> \<not> names_operation ([CHR 0x27] @ ''EconomicAgent'' @ [CHR 0x27] @ '' object is not callable'')
         ''agent''
   \<and> ''agent'' \<notin> set methods"
  by (simp add: run_result caught_def dispatch_def call_method_def py_getattr_def methods_def
        EconomicAgentModule_init_def model_truthy_def)

section \<open>What every call of run preserves\<close>

lemma module_ok_init: "valid_host h \<Longrightarrow> module_ok (EconomicAgentModule_init h d c)"
  by (simp add: module_ok_def EconomicAgentModule_init_def EconomicAgent_init_def
        ensure_valid_wallet_def has_key_def valid_host_def)

lemma seed_holdings_module_ok: "module_ok m \<Longrightarrow> module_ok (fst (seed_holdings m v))"
  by (auto simp: seed_holdings_def module_ok_def split: option.splits prod.splits)

lemma create_module_ok: "module_ok m \<Longrightarrow> module_ok (fst (create m v))"
  using seed_holdings_module_ok[of m v]
  by (auto simp: create_def split: prod.splits option.splits)

lemma add_transaction_module_ok: "module_ok m \<Longrightarrow> module_ok (fst (add_transaction pf m tx))"
  by (auto simp: add_transaction_def agent_add_transaction_def module_ok_def
           split: option.splits pyval.splits sum.splits prod.splits)

lemma call_inherited_module_ok: "module_ok m \<Longrightarrow> module_ok (fst (call_inherited m n arg))"
  by (auto simp: call_inherited_def module_ok_def split: pyval.splits sum.splits)

lemma call_method_module_ok:
  assumes "module_ok m"
  shows "module_ok (fst (call_method pf m name method fi))"
proof -
  have c: "\<And>v. module_ok (fst (create m v))" using assms by (rule create_module_ok)
  have a: "module_ok (fst (add_transaction pf m fi))" using assms by (rule add_transaction_module_ok)
  have i: "\<And>n. module_ok (fst (call_inherited m n fi))" using assms by (rule call_inherited_module_ok)
  show ?thesis
  proof (cases "method")
    case (Inherited n)
    with assms c a i[of n] show ?thesis
      by (auto simp: call_method_def split: sum.splits prod.splits)
  qed (use assms c a in \<open>auto simp: call_method_def split: sum.splits\<close>)
qed

lemma dispatch_module_ok: "module_ok m \<Longrightarrow> module_ok (fst (dispatch pf m name data))"
  using call_method_module_ok[of m pf name]
  by (auto simp: dispatch_def split: sum.splits)

lemma list_all_update:
  "list_all (\<lambda>(k, m). P m) al \<Longrightarrow> P v \<Longrightarrow> list_all (\<lambda>(k, m). P m) (AList.update key v al)"
  by (induction al) auto

lemma list_all_map_of:
  "list_all (\<lambda>(k, m). P m) al \<Longrightarrow> map_of al key = Some m \<Longrightarrow> P m"
  by (induction al) (auto split: if_splits)

lemma run_registry:
  "fst (run h agents (Inr r)) =
     AList.update (caller r)
       (fst (dispatch (parse_float h)
              (case map_of agents (caller r) of
                 None \<Rightarrow> EconomicAgentModule_init h (run_deployment r) (caller r)
               | Some m \<Rightarrow> m)
              (func_name r) (func_input_data r)))
       agents"
  by (simp add: run_def Let_def split: prod.splits sum.splits)

lemma run_module_ok:
  assumes "list_all (\<lambda>(k, m). module_ok m) agents" and "valid_host h"
  shows "list_all (\<lambda>(k, m). module_ok m) (fst (run h agents module_run))"
proof (cases module_run)
  case (Inl e)
  with assms show ?thesis by (simp add: run_def)
next
  case (Inr r)
  let ?m = "case map_of agents (caller r) of
              None \<Rightarrow> EconomicAgentModule_init h (run_deployment r) (caller r)
            | Some m \<Rightarrow> m"
  have "module_ok ?m"
    using assms module_ok_init list_all_map_of[of module_ok agents "caller r"]
    by (auto split: option.splits)
  then have "module_ok (fst (dispatch (parse_float h) ?m (func_name r) (func_input_data r)))"
    by (rule dispatch_module_ok)
  with assms(1) Inr show ?thesis
    by (simp only: run_registry list_all_update)
qed

lemma reachable_module_ok: "reachable agents \<Longrightarrow> list_all (\<lambda>(k, m). module_ok m) agents"
  by (induction rule: reachable.induct) (simp_all add: run_module_ok)

section \<open>The messages of the envelopes\<close>

lemma create_message: "snd (create m v) = Inr env \<Longrightarrow> message env = None"
  by (auto simp: create_def create_snapshot_def message_def split: if_splits prod.splits option.splits)

lemma balance_check_message:
  "balance_check a d = Inr (Some env) \<Longrightarrow> \<exists>s c x. message env = Some (Msg (Insufficient s c x))"
  by (auto simp: balance_check_def message_def Let_def split: if_splits sum.splits bool.splits)

lemma add_transaction_checked:
  assumes "agent m = Some a" and "tx_shape_ok (PDict d)" and "tx_get d ''type'' PNone \<in> set tx_types"
  shows "add_transaction pf m (PDict d) =
           (case balance_check a d of
              Inl e \<Rightarrow> (m, Inl e)
            | Inr (Some env) \<Rightarrow> (m, Inr env)
            | Inr None \<Rightarrow>
                (case agent_add_transaction pf a d of
                   (a', Some e) \<Rightarrow> (m\<lparr>agent := Some a'\<rparr>, Inl e)
                 | (a', None) \<Rightarrow>
                     (m\<lparr>agent := Some a'\<rparr>,
                      Inr [(''status'', Val (PStr ''success'')), (''transaction'', Val (PDict d))])))"
  using assms by (simp add: add_transaction_def model_truthy_def del: tx_shape_ok.simps)

lemma add_transaction_message:
  assumes "snd (add_transaction pf m tx) = Inr env"
  shows "message env = None
       \<or> message env = Some (Msg (Text ''Invalid transaction data - must include type, symbol and amount''))
       \<or> message env = Some (Msg (Text ''Invalid transaction type - only withdraw and deposit allowed''))
       \<or> (\<exists>s c x. message env = Some (Msg (Insufficient s c x)))"
proof (cases "agent m")
  case None
  with assms show ?thesis by (simp add: add_transaction_def)
next
  case (Some a)
  show ?thesis
  proof (cases "tx_shape_ok tx")
    case False
    with assms Some show ?thesis
      by (auto simp: add_transaction_def model_truthy_def message_def)
  next
    case True
    then obtain d where d: "tx = PDict d" by (cases tx) auto
    show ?thesis
    proof (cases "tx_get d ''type'' PNone \<in> set tx_types")
      case False
      with assms Some True d show ?thesis
        by (auto simp: add_transaction_def model_truthy_def message_def simp del: tx_shape_ok.simps)
    next
      case ty: True
      note unf = add_transaction_checked[OF Some True[unfolded d] ty, of pf]
      show ?thesis
      proof (cases "balance_check a d")
        case (Inl e)
        with assms unf d show ?thesis by simp
      next
        case (Inr r)
        show ?thesis
        proof (cases r)
          case None
          with Inr assms unf d show ?thesis
            by (auto simp: message_def split: prod.splits option.splits)
        next
          case (Some env')
          with Inr assms unf d have "env = env'" by simp
          with Some Inr balance_check_message show ?thesis by blast
        qed
      qed
    qed
  qed
qed

lemma get_token_balance_message: "module_get_token_balance m v = Inr env \<Longrightarrow> message env = None"
  by (auto simp: module_get_token_balance_def model_truthy_def message_def split: option.splits sum.splits)

lemma get_portfolio_value_message:
  "module_get_portfolio_value m f dp = Inr env \<Longrightarrow> message env = None"
  by (auto simp: module_get_portfolio_value_def model_truthy_def message_def split: option.splits sum.splits)

lemma wallet_sign_message:
  "wallet_sign_transaction w tx = Inr s \<Longrightarrow>
     s \<noteq> [] \<and> message (spread [(''status'', Val (PStr ''success''))] s) = None"
  by (auto simp: wallet_sign_transaction_def spread_def message_def split: sum.splits)

lemma sign_transaction_message:
  assumes "sign_transaction m tx = Inr env"
  shows "message env = None
       \<or> (\<exists>a. agent m = Some a \<and> wallet a = None
              \<and> message env = Some (Msg (Text ''Failed to sign transaction'')))"
proof (cases "agent m")
  case None
  with assms show ?thesis by (simp add: sign_transaction_def)
next
  case (Some a)
  show ?thesis
  proof (cases "wallet a")
    case None
    with assms Some show ?thesis
      by (auto simp: sign_transaction_def model_truthy_def agent_sign_transaction_def message_def)
  next
    case w: (Some w)
    show ?thesis
    proof (cases "wallet_sign_transaction w tx")
      case (Inl e)
      with assms Some w show ?thesis
        by (simp add: sign_transaction_def model_truthy_def agent_sign_transaction_def)
    next
      case (Inr s)
      with assms Some w wallet_sign_message[OF Inr] show ?thesis
        by (auto simp: sign_transaction_def model_truthy_def agent_sign_transaction_def)
    qed
  qed
qed

lemma call_method_message:
  assumes "snd (call_method pf m name method fi) = Inr env"
  shows "message env = None
       \<or> message env = Some (Msg (Text ''Invalid transaction data - must include type, symbol and amount''))
       \<or> message env = Some (Msg (Text ''Invalid transaction type - only withdraw and deposit allowed''))
       \<or> (\<exists>s c x. message env = Some (Msg (Insufficient s c x)))
       \<or> (\<exists>a. agent m = Some a \<and> wallet a = None
              \<and> message env = Some (Msg (Text ''Failed to sign transaction'')))"
proof -
  consider (c) "name = ''create''"
    | (a) "name \<noteq> ''create''" "name = ''add_transaction''"
    | (b) "name \<noteq> ''create''" "name \<noteq> ''add_transaction''" "name = ''get_token_balance''"
    | (v) "name \<noteq> ''create''" "name \<noteq> ''add_transaction''" "name \<noteq> ''get_token_balance''"
          "name = ''get_portfolio_value''"
    | (o) "name \<noteq> ''create''" "name \<noteq> ''add_transaction''" "name \<noteq> ''get_token_balance''"
          "name \<noteq> ''get_portfolio_value''"
    by blast
  then show ?thesis
  proof cases
    case c
    with assms show ?thesis
      by (auto simp: call_method_def split: sum.splits dest: create_message)
  next
    case a
    with assms have "snd (add_transaction pf m fi) = Inr env"
      by (simp add: call_method_def)
    from add_transaction_message[OF this] show ?thesis by blast
  next
    case b
    with assms show ?thesis
      by (auto simp: call_method_def split: sum.splits dest: get_token_balance_message)
  next
    case v
    with assms show ?thesis
      by (auto simp: call_method_def split: sum.splits dest: get_portfolio_value_message)
  next
    case o
    show ?thesis
    proof (cases "method")
      case (Method n)
      with assms o have "sign_transaction m fi = Inr env"
        by (simp add: call_method_def)
      from sign_transaction_message[OF this] show ?thesis by blast
    qed (use assms o in \<open>auto simp: call_method_def split: prod.splits\<close>)
  qed
qed

lemma dispatch_message:
  assumes "snd (dispatch pf m name data) = Inr env"
  shows "message env = None
       \<or> message env = Some (Msg (Text ''Invalid transaction data - must include type, symbol and amount''))
       \<or> message env = Some (Msg (Text ''Invalid transaction type - only withdraw and deposit allowed''))
       \<or> (\<exists>s c x. message env = Some (Msg (Insufficient s c x)))
       \<or> (\<exists>a. agent m = Some a \<and> wallet a = None
              \<and> message env = Some (Msg (Text ''Failed to sign transaction'')))
       \<or> message env = Some (Msg (Text (''Invalid function name: '' @ name)))"
proof (cases "py_getattr m name")
  case (Inl e)
  with assms show ?thesis by (simp add: dispatch_def)
next
  case (Inr found)
  show ?thesis
  proof (cases "attr_truthy found")
    case False
    with assms Inr show ?thesis by (auto simp: dispatch_def message_def)
  next
    case True
    with assms Inr
    have "snd (call_method pf m name found (if truthy data then data else PDict [])) = Inr env"
      by (simp add: dispatch_def)
    from call_method_message[OF this] show ?thesis by blast
  qed
qed

section \<open>The wallet is always there\<close>

lemma init_agent:
  "agent (EconomicAgentModule_init h d c) = Some (EconomicAgent_init h True None)
   \<and> wallet (EconomicAgent_init h True None) \<noteq> None
   \<and> holdings (EconomicAgent_init h True None)
       = Some \<lparr>token_balances = [], transaction_history = []\<rparr>
   \<and> agent_id (EconomicAgent_init h True None) = new_id h"
  by (simp add: EconomicAgentModule_init_def EconomicAgent_init_def)

lemma module_ok_wallet: "module_ok m \<Longrightarrow> agent m = Some a \<Longrightarrow> wallet a \<noteq> None"
  by (auto simp: module_ok_def split: option.splits)

lemma agent_sign_nonempty: "wallet a \<noteq> None \<Longrightarrow> agent_sign_transaction a tx \<noteq> Inr []"
  by (auto simp: agent_sign_transaction_def wallet_sign_transaction_def split: sum.splits)

lemma run_no_sign_failure:
  assumes "list_all (\<lambda>(k, m). module_ok m) agents"
  shows "message (snd (run h agents module_run)) \<noteq> Some (Msg (Text ''Failed to sign transaction''))"
proof (cases module_run)
  case (Inl e)
  then show ?thesis by (simp add: run_def message_def)
next
  case (Inr r)
  let ?m = "case map_of agents (caller r) of
              None \<Rightarrow> EconomicAgentModule_init h (run_deployment r) (caller r)
            | Some m \<Rightarrow> m"
  have w: "\<And>a. agent ?m = Some a \<Longrightarrow> wallet a \<noteq> None"
  proof (cases "map_of agents (caller r)")
    case None
    fix a assume "agent ?m = Some a"
    with None init_agent[of h "run_deployment r" "caller r"] show "wallet a \<noteq> None" by simp
  next
    case (Some m)
    fix a assume a: "agent ?m = Some a"
    from list_all_map_of[of module_ok, OF assms Some] have "module_ok m" .
    with a Some module_ok_wallet show "wallet a \<noteq> None" by simp
  qed
  show ?thesis
  proof (cases "snd (dispatch (parse_float h) ?m (func_name r) (func_input_data r))")
    case (Inl e)
    with Inr show ?thesis by (simp add: run_result caught_def message_def)
  next
    case res: (Inr env)
    from dispatch_message[OF res] w
    have "message env \<noteq> Some (Msg (Text ''Failed to sign transaction''))"
      by auto
    with Inr res show ?thesis by (simp add: run_result)
  qed
qed

text \<open>
  C10. Every module object is constructed with \<open>generate_wallet=True\<close>, so its agent has a
  wallet and holdings from the start, and the wallet has a non-empty address and key. In
  every registry that calls of \<open>run\<close> produce, an agent that is still attached to its module
  has its wallet with address and key and has its holdings; \<open>Agent.sign_transaction\<close> on it
  never returns the empty mapping; and no request is answered by the sign-failure envelope
  of the dispatcher.
\<close>

theorem sign_failure_unreachable:
  assumes "reachable agents"
  shows "(\<forall>k m a. map_of agents k = Some m \<and> agent m = Some a \<longrightarrow>
            (\<exists>w p. wallet a = Some w \<and> has_key w \<and> holdings a = Some p)
            \<and> (\<forall>tx_data. agent_sign_transaction a tx_data \<noteq> Inr []))
       \<and> (\<forall>h module_run. message (snd (run h agents module_run))
                           \<noteq> Some (Msg (Text ''Failed to sign transaction'')))
       \<and> (\<forall>h d c. valid_host h \<longrightarrow> module_ok (EconomicAgentModule_init h d c)
                                 \<and> agent (EconomicAgentModule_init h d c) \<noteq> None)"
proof -
  from assms have ok: "list_all (\<lambda>(k, m). module_ok m) agents"
    by (rule reachable_module_ok)
  have one: "\<forall>k m a. map_of agents k = Some m \<and> agent m = Some a \<longrightarrow>
            (\<exists>w p. wallet a = Some w \<and> has_key w \<and> holdings a = Some p)
            \<and> (\<forall>tx_data. agent_sign_transaction a tx_data \<noteq> Inr [])"
  proof (intro allI impI)
    fix k m a assume h: "map_of agents k = Some m \<and> agent m = Some a"
    with list_all_map_of[of module_ok, OF ok] have m: "module_ok m" by blast
    with h have "\<exists>w p. wallet a = Some w \<and> has_key w \<and> holdings a = Some p"
      by (auto simp: module_ok_def split: option.splits)
    moreover from this have "\<forall>tx_data. agent_sign_transaction a tx_data \<noteq> Inr []"
      using agent_sign_nonempty by auto
    ultimately show "(\<exists>w p. wallet a = Some w \<and> has_key w \<and> holdings a = Some p)
            \<and> (\<forall>tx_data. agent_sign_transaction a tx_data \<noteq> Inr [])" by blast
  qed
  have two: "\<forall>h module_run. message (snd (run h agents module_run))
                           \<noteq> Some (Msg (Text ''Failed to sign transaction''))"
    using run_no_sign_failure[OF ok] by blast
  have three: "\<forall>h d c. valid_host h \<longrightarrow> module_ok (EconomicAgentModule_init h d c)
                                 \<and> agent (EconomicAgentModule_init h d c) \<noteq> None"
    using module_ok_init init_agent by fastforce
  show ?thesis using one two three by blast
qed

theorem sign_failure_unreachable_witness:
  "reachable (fst (run \<lparr>parse_float = (\<lambda>s. None), new_id = ''id-1'', account_key = ''0xk'',
                        account_address = ''0xA''\<rparr> []
                     (Inr \<lparr>caller = ''alice'', run_deployment = (), func_name = ''create'',
                           func_input_data = PNone\<rparr>)))
   \<and> message (snd (run \<lparr>parse_float = (\<lambda>s. None), new_id = ''id-2'', account_key = ''0xk2'',
                        account_address = ''0xB''\<rparr>
                (fst (run \<lparr>parse_float = (\<lambda>s. None), new_id = ''id-1'', account_key = ''0xk'',
                        account_address = ''0xA''\<rparr> []
                     (Inr \<lparr>caller = ''alice'', run_deployment = (), func_name = ''create'',
                           func_input_data = PNone\<rparr>)))
                (Inr \<lparr>caller = ''alice'', run_deployment = (), func_name = ''sign_transaction'',
                      func_input_data = PDict [(''to'', PStr ''0x742d'')]\<rparr>)))
       \<noteq> Some (Msg (Text ''Failed to sign transaction''))"
proof -
  let ?h = "\<lparr>parse_float = (\<lambda>s. None), new_id = ''id-1'', account_key = ''0xk'',
             account_address = ''0xA''\<rparr>"
  let ?r = "Inr \<lparr>caller = ''alice'', run_deployment = (), func_name = ''create'',
                 func_input_data = PNone\<rparr> :: exc + unit AgentRunInput"
  have v: "valid_host ?h" by (simp add: valid_host_def)
  have r: "reachable (fst (run ?h [] ?r))"
    by (rule reachable.step[OF reachable.start v])
  from sign_failure_unreachable[OF r] r show ?thesis by blast
qed

section \<open>The first request of a caller\<close>

lemma dispatch_method:
  "name \<in> set methods \<Longrightarrow>
     dispatch pf m name data
       = call_method pf m name (Method name) (if truthy data then data else PDict [])"
  by (simp add: dispatch_def py_getattr_def)

lemma seed_holdings_keeps_agent:
  assumes "agent m = Some a"
  shows "\<exists>a'. agent (fst (seed_holdings m v)) = Some a' \<and> agent_id a' = agent_id a
              \<and> wallet a' = wallet a \<and> (holdings a \<noteq> None \<longrightarrow> holdings a' \<noteq> None)
              \<and> (\<forall>p. holdings a = Some p \<longrightarrow>
                    (\<exists>p'. holdings a' = Some p' \<and> transaction_history p' = transaction_history p))"
  using assms by (auto simp: seed_holdings_def split: option.splits prod.splits)

lemma create_keeps_agent:
  assumes "agent m = Some a"
  shows "\<exists>a'. agent (fst (create m v)) = Some a' \<and> agent_id a' = agent_id a
              \<and> wallet a' = wallet a \<and> (holdings a \<noteq> None \<longrightarrow> holdings a' \<noteq> None)
              \<and> (\<forall>p. holdings a = Some p \<longrightarrow>
                    (\<exists>p'. holdings a' = Some p' \<and> transaction_history p' = transaction_history p))"
proof (cases "truthy v")
  case True
  have "fst (create m v) = fst (seed_holdings m v)"
    using True by (simp add: create_def split: prod.splits option.splits)
  with seed_holdings_keeps_agent[OF assms, of v] show ?thesis by simp
next
  case False
  with assms show ?thesis by (simp add: create_def)
qed

lemma add_transaction_keeps_agent:
  assumes "agent m = Some a"
  shows "\<exists>a'. agent (fst (add_transaction pf m tx)) = Some a' \<and> agent_id a' = agent_id a
              \<and> wallet a' = wallet a \<and> (holdings a \<noteq> None \<longrightarrow> holdings a' \<noteq> None)"
  using assms
  by (auto simp: add_transaction_def agent_add_transaction_def
           split: option.splits pyval.splits sum.splits prod.splits)

lemma call_method_keeps_agent:
  assumes "agent m = Some a"
  shows "\<exists>a'. agent (fst (call_method pf m name (Method n) fi)) = Some a' \<and> agent_id a' = agent_id a
              \<and> wallet a' = wallet a \<and> (holdings a \<noteq> None \<longrightarrow> holdings a' \<noteq> None)"
proof -
  consider (c) "name = ''create''"
    | (a) "name \<noteq> ''create''" "name = ''add_transaction''"
    | (o) "name \<noteq> ''create''" "name \<noteq> ''add_transaction''"
    by blast
  then show ?thesis
  proof cases
    case c
    show ?thesis
    proof (cases "py_get fi ''initial_holdings'' PNone")
      case (Inl e)
      with c assms show ?thesis by (simp add: call_method_def)
    next
      case (Inr ih)
      with c have "fst (call_method pf m name (Method n) fi) = fst (create m ih)"
        by (simp add: call_method_def)
      with create_keeps_agent[OF assms, of ih] show ?thesis by auto
    qed
  next
    case a
    then have "fst (call_method pf m name (Method n) fi) = fst (add_transaction pf m fi)"
      by (simp add: call_method_def)
    with add_transaction_keeps_agent[OF assms, of pf fi] show ?thesis by simp
  next
    case o
    then have "fst (call_method pf m name (Method n) fi) = m"
      by (auto simp: call_method_def split: sum.splits)
    with assms show ?thesis by simp
  qed
qed

lemma run_new_key:
  assumes "map_of agents (caller r) = None"
  shows "run h agents (Inr r) =
           (let (m', result) = dispatch (parse_float h)
                                 (EconomicAgentModule_init h (run_deployment r) (caller r))
                                 (func_name r) (func_input_data r)
            in (AList.update (caller r) m' agents,
                case result of Inl e \<Rightarrow> caught e | Inr env \<Rightarrow> env))"
  using assms by (simp add: run_def caught_def Let_def split: prod.splits sum.splits)

text \<open>
  C2, as stated, fails: the first request of a caller may be any operation, and it is
  performed; the envelope is not the one for an agent that is not initialized.
\<close>

theorem run_not_initialized_counterexample:
  "snd (run \<lparr>parse_float = (\<lambda>s. None), new_id = ''id-1'', account_key = ''0xk'',
             account_address = ''0xA''\<rparr> []
          (Inr \<lparr>caller = ''alice'', run_deployment = (), func_name = ''get_token_balance'',
                func_input_data = PDict [(''symbol'', PStr ''ETH'')]\<rparr>))
     = [(''status'', Val (PStr ''success'')), (''symbol'', Val (PStr ''ETH'')),
        (''balance'', Val (PFloat (Finite 0)))]"
  by (simp add: run_result dispatch_method methods_def call_method_def module_get_token_balance_def
        model_truthy_def init_agent agent_get_token_balance_def get_token_balance_def dict_get_str)

text \<open>
  C2, amended. For a caller key that has no module object in the registry, a request for
  any operation other than \<open>create\<close> first constructs the module with its agent (wallet
  generated, holdings empty) under that key and then performs the operation on it. The
  answer is never the envelope for an agent that is not initialized; the agent stays in the
  registry under the key; and \<open>get_token_balance\<close> for a string symbol answers success with
  balance 0. \<open>run\<close> returns an envelope in every case.
\<close>

theorem run_first_request:
  assumes "map_of agents (caller r) = None"
    and "func_name r \<in> set [''add_transaction'', ''get_token_balance'', ''get_portfolio_value'',
                              ''sign_transaction'']"
  shows "message (snd (run h agents (Inr r)))
           \<noteq> Some (Msg (Text ''Agent not initialized. Call create first.''))
       \<and> snd (run h agents (Inr r)) \<noteq> not_initialized
       \<and> (\<exists>m a p. map_of (fst (run h agents (Inr r))) (caller r) = Some m \<and> agent m = Some a
                  \<and> agent_id a = new_id h \<and> wallet a \<noteq> None \<and> holdings a = Some p)
       \<and> (\<forall>s. func_name r = ''get_token_balance'' \<and> func_input_data r = PDict [(''symbol'', PStr s)]
              \<longrightarrow> snd (run h agents (Inr r))
                    = [(''status'', Val (PStr ''success'')), (''symbol'', Val (PStr s)),
                       (''balance'', Val (PFloat (Finite 0)))])"
proof -
  let ?m0 = "EconomicAgentModule_init h (run_deployment r) (caller r)"
  let ?a0 = "EconomicAgent_init h True None"
  let ?fi = "if truthy (func_input_data r) then func_input_data r else PDict []"
  have meth: "func_name r \<in> set methods" using assms(2) by (auto simp: methods_def)
  have d: "dispatch (parse_float h) ?m0 (func_name r) (func_input_data r)
             = call_method (parse_float h) ?m0 (func_name r) (Method (func_name r)) ?fi"
    using meth by (rule dispatch_method)
  have res: "snd (run h agents (Inr r)) =
               (case snd (dispatch (parse_float h) ?m0 (func_name r) (func_input_data r)) of
                  Inl e \<Rightarrow> caught e | Inr env \<Rightarrow> env)"
    using assms(1) by (simp add: run_result)
  have msg: "message (snd (run h agents (Inr r)))
           \<noteq> Some (Msg (Text ''Agent not initialized. Call create first.''))"
  proof (cases "snd (dispatch (parse_float h) ?m0 (func_name r) (func_input_data r))")
    case (Inl e)
    with res show ?thesis by (simp add: caught_def message_def)
  next
    case (Inr env)
    from dispatch_message[OF Inr]
    have "message env \<noteq> Some (Msg (Text ''Agent not initialized. Call create first.''))"
      by auto
    with res Inr show ?thesis by simp
  qed
  then have ne: "snd (run h agents (Inr r)) \<noteq> not_initialized"
    by (auto simp: not_initialized_def message_def)
  have a0: "agent ?m0 = Some ?a0" by (simp add: init_agent)
  from call_method_keeps_agent[OF a0, of "parse_float h" "func_name r" "func_name r" ?fi]
  obtain a' where a': "agent (fst (dispatch (parse_float h) ?m0 (func_name r) (func_input_data r)))
                          = Some a'"
      "agent_id a' = agent_id ?a0" "wallet a' = wallet ?a0"
      "holdings ?a0 \<noteq> None \<longrightarrow> holdings a' \<noteq> None"
    using d by auto
  have reg: "map_of (fst (run h agents (Inr r))) (caller r)
               = Some (fst (dispatch (parse_float h) ?m0 (func_name r) (func_input_data r)))"
    using assms(1) by (simp add: run_registry update_conv')
  have kept: "\<exists>m a p. map_of (fst (run h agents (Inr r))) (caller r) = Some m \<and> agent m = Some a
                  \<and> agent_id a = new_id h \<and> wallet a \<noteq> None \<and> holdings a = Some p"
    using reg a' init_agent[of h "run_deployment r" "caller r"] by auto
  have bal: "\<forall>s. func_name r = ''get_token_balance'' \<and> func_input_data r = PDict [(''symbol'', PStr s)]
              \<longrightarrow> snd (run h agents (Inr r))
                    = [(''status'', Val (PStr ''success'')), (''symbol'', Val (PStr s)),
                       (''balance'', Val (PFloat (Finite 0)))]"
    using res d init_agent[of h "run_deployment r" "caller r"]
    by (auto simp: call_method_def module_get_token_balance_def model_truthy_def
          agent_get_token_balance_def get_token_balance_def dict_get_str)
  show ?thesis using msg ne kept bal by blast
qed

theorem run_first_request_witness:
  "map_of ([] :: unit registry) ''alice'' = None
   \<and> snd (run \<lparr>parse_float = (\<lambda>s. None), new_id = ''id-1'', account_key = ''0xk'',
               account_address = ''0xA''\<rparr> []
            (Inr \<lparr>caller = ''alice'', run_deployment = (), func_name = ''sign_transaction'',
                  func_input_data = PDict [(''to'', PStr ''0x742d'')]\<rparr>))
       \<noteq> not_initialized"
proof -
  let ?r = "\<lparr>caller = ''alice'', run_deployment = (), func_name = ''sign_transaction'',
              func_input_data = PDict [(''to'', PStr ''0x742d'')]\<rparr>"
  have k: "map_of ([] :: unit registry) (caller ?r) = None" by simp
  have n: "func_name ?r \<in> set [''add_transaction'', ''get_token_balance'', ''get_portfolio_value'',
                              ''sign_transaction'']" by simp
  from run_first_request[OF k n] show ?thesis by simp
qed

section \<open>Create\<close>

lemma create_input_cases:
  assumes "create_input_ok data"
  shows "\<exists>ih. py_get (if truthy data then data else PDict []) ''initial_holdings'' PNone = Inr ih
              \<and> (\<not> truthy ih \<or> (\<exists>d. ih = PDict d))"
proof -
  from assms obtain fi where fi: "(if truthy data then data else PDict []) = PDict fi"
    by (auto simp: create_input_ok_def split: pyval.splits if_splits)
  show ?thesis
  proof (cases "map_of fi ''initial_holdings''")
    case None
    with fi show ?thesis by simp
  next
    case (Some v)
    with assms fi have "\<not> truthy v \<or> (\<exists>d. v = PDict d)"
      by (cases v) (auto simp: create_input_ok_def split: if_splits)
    with fi Some show ?thesis by simp
  qed
qed

lemma create_succeeds:
  assumes "agent m = Some a" and "holdings a = Some p" and "\<not> truthy ih \<or> (\<exists>d. ih = PDict d)"
  shows "\<exists>env a' p'. snd (create m ih) = Inr env
           \<and> status env = Some (Val (PStr ''success''))
           \<and> map_of env ''agent_id'' = Some (Val (PStr (agent_id a)))
           \<and> agent (fst (create m ih)) = Some a' \<and> agent_id a' = agent_id a
           \<and> holdings a' = Some p'
           \<and> transaction_history p' = transaction_history p
           \<and> token_balances p' = (if truthy ih then fst (dict_update (token_balances p) ih)
                                   else token_balances p)"
proof (cases "truthy ih")
  case False
  with assms show ?thesis
    by (simp add: create_def create_snapshot_def status_def)
next
  case True
  with assms(3) obtain d where d: "ih = PDict d" by blast
  with True assms(1,2) show ?thesis
    by (simp add: create_def seed_holdings_def create_snapshot_def status_def)
qed

lemma run_create:
  assumes "module_ready agents key"
    and "caller r = key" and "func_name r = ''create''" and "create_input_ok (func_input_data r)"
  shows "\<exists>i. status (snd (run h agents (Inr r))) = Some (Val (PStr ''success''))
           \<and> map_of (snd (run h agents (Inr r))) ''agent_id'' = Some (Val (PStr i))
           \<and> agent_id_of (fst (run h agents (Inr r))) key = Some i
           \<and> (case agent_id_of agents key of None \<Rightarrow> i = new_id h | Some j \<Rightarrow> i = j)
           \<and> module_ready (fst (run h agents (Inr r))) key
           \<and> history_of (fst (run h agents (Inr r))) key = history_of agents key"
proof -
  let ?m = "case map_of agents (caller r) of
              None \<Rightarrow> EconomicAgentModule_init h (run_deployment r) (caller r)
            | Some m \<Rightarrow> m"
  let ?fi = "if truthy (func_input_data r) then func_input_data r else PDict []"
  from assms(1,2) obtain a p where a: "agent ?m = Some a" "holdings a = Some p"
    using init_agent[of h "run_deployment r" "caller r"]
    by (auto simp: module_ready_def split: option.splits)
  have idc: "case agent_id_of agents key of None \<Rightarrow> agent_id a = new_id h | Some j \<Rightarrow> agent_id a = j"
    using a assms(1,2) init_agent[of h "run_deployment r" "caller r"]
    by (auto simp: agent_id_of_def module_ready_def split: option.splits)
  have hist: "history_of agents key = transaction_history p"
    using a assms(1,2) init_agent[of h "run_deployment r" "caller r"]
    by (auto simp: history_of_def module_ready_def split: option.splits)
  from create_input_cases[OF assms(4)] obtain ih where
    ih: "py_get ?fi ''initial_holdings'' PNone = Inr ih" "\<not> truthy ih \<or> (\<exists>d. ih = PDict d)"
    by blast
  have d: "dispatch (parse_float h) ?m (func_name r) (func_input_data r) = create ?m ih"
    using assms(3) ih(1) by (simp add: dispatch_method methods_def call_method_def)
  from create_succeeds[OF a ih(2)] obtain env a' p' where
    c: "snd (create ?m ih) = Inr env" "status env = Some (Val (PStr ''success''))"
       "map_of env ''agent_id'' = Some (Val (PStr (agent_id a)))"
       "agent (fst (create ?m ih)) = Some a'" "agent_id a' = agent_id a" "holdings a' = Some p'"
       "transaction_history p' = transaction_history p"
    by blast
  have res: "snd (run h agents (Inr r)) = env"
    using d c(1) by (simp add: run_result)
  have reg: "map_of (fst (run h agents (Inr r))) key = Some (fst (create ?m ih))"
    using d assms(2) by (simp add: run_registry update_conv')
  have "agent_id_of (fst (run h agents (Inr r))) key = Some (agent_id a)"
    using reg c by (simp add: agent_id_of_def)
  moreover have "module_ready (fst (run h agents (Inr r))) key"
    using reg c by (simp add: module_ready_def)
  moreover have "history_of (fst (run h agents (Inr r))) key = history_of agents key"
    using reg c hist by (simp add: history_of_def)
  ultimately show ?thesis using res c(2,3) idc by blast
qed

text \<open>
  C9. Two \<open>create\<close> requests in a row for the same caller key, each with arguments as the
  signature declares them, when the caller has no module object yet or has one with its
  agent and holdings: both answers are success envelopes and carry the same \<open>agent_id\<close>.
  The id is the one of the agent that was there, or of the one the first request
  constructed; the second request constructs nothing.
\<close>

theorem create_twice_same_agent:
  assumes "module_ready agents key"
    and "caller r1 = key" and "func_name r1 = ''create''" and "create_input_ok (func_input_data r1)"
    and "caller r2 = key" and "func_name r2 = ''create''" and "create_input_ok (func_input_data r2)"
  shows "\<exists>i. status (snd (run h1 agents (Inr r1))) = Some (Val (PStr ''success''))
           \<and> map_of (snd (run h1 agents (Inr r1))) ''agent_id'' = Some (Val (PStr i))
           \<and> status (snd (run h2 (fst (run h1 agents (Inr r1))) (Inr r2)))
               = Some (Val (PStr ''success''))
           \<and> map_of (snd (run h2 (fst (run h1 agents (Inr r1))) (Inr r2))) ''agent_id''
               = Some (Val (PStr i))
           \<and> (case agent_id_of agents key of None \<Rightarrow> i = new_id h1 | Some j \<Rightarrow> i = j)"
proof -
  from run_create[OF assms(1-4), of h1] obtain i where
    one: "status (snd (run h1 agents (Inr r1))) = Some (Val (PStr ''success''))"
         "map_of (snd (run h1 agents (Inr r1))) ''agent_id'' = Some (Val (PStr i))"
         "agent_id_of (fst (run h1 agents (Inr r1))) key = Some i"
         "case agent_id_of agents key of None \<Rightarrow> i = new_id h1 | Some j \<Rightarrow> i = j"
         "module_ready (fst (run h1 agents (Inr r1))) key"
    by blast
  from run_create[OF one(5) assms(5-7), of h2] one(3)
  have two: "status (snd (run h2 (fst (run h1 agents (Inr r1))) (Inr r2)))
               = Some (Val (PStr ''success''))"
       "map_of (snd (run h2 (fst (run h1 agents (Inr r1))) (Inr r2))) ''agent_id''
               = Some (Val (PStr i))"
    by auto
  from one two show ?thesis by blast
qed

theorem create_twice_same_agent_witness:
  "module_ready ([] :: unit registry) ''alice''
   \<and> create_input_ok (PDict [(''initial_holdings'', PDict [(''ETH'', PFloat (Finite 1))])])
   \<and> create_input_ok PNone
   \<and> map_of (snd (run \<lparr>parse_float = (\<lambda>s. None), new_id = ''id-2'', account_key = ''0xk2'',
                        account_address = ''0xB''\<rparr>
                (fst (run \<lparr>parse_float = (\<lambda>s. None), new_id = ''id-1'', account_key = ''0xk'',
                        account_address = ''0xA''\<rparr> []
                     (Inr \<lparr>caller = ''alice'', run_deployment = (), func_name = ''create'',
                           func_input_data =
                             PDict [(''initial_holdings'', PDict [(''ETH'', PFloat (Finite 1))])]\<rparr>)))
                (Inr \<lparr>caller = ''alice'', run_deployment = (), func_name = ''create'',
                      func_input_data = PNone\<rparr>))) ''agent_id''
       = Some (Val (PStr ''id-1''))"
proof -
  let ?h1 = "\<lparr>parse_float = (\<lambda>s. None), new_id = ''id-1'', account_key = ''0xk'',
              account_address = ''0xA''\<rparr>"
  let ?h2 = "\<lparr>parse_float = (\<lambda>s. None), new_id = ''id-2'', account_key = ''0xk2'',
              account_address = ''0xB''\<rparr>"
  let ?r1 = "\<lparr>caller = ''alice'', run_deployment = (), func_name = ''create'',
               func_input_data = PDict [(''initial_holdings'', PDict [(''ETH'', PFloat (Finite 1))])]\<rparr>"
  let ?r2 = "\<lparr>caller = ''alice'', run_deployment = (), func_name = ''create'',
               func_input_data = PNone\<rparr>"
  have m: "module_ready ([] :: unit registry) ''alice''" by (simp add: module_ready_def)
  have c1: "create_input_ok (func_input_data ?r1)" by (simp add: create_input_ok_def)
  have c2: "create_input_ok (func_input_data ?r2)" by (simp add: create_input_ok_def)
  have n: "agent_id_of ([] :: unit registry) ''alice'' = None" by (simp add: agent_id_of_def)
  from create_twice_same_agent[of "[] :: unit registry" "''alice''" ?r1 ?r2 ?h1 ?h2, OF m _ _ c1 _ _ c2] n
  have "map_of (snd (run ?h2 (fst (run ?h1 [] (Inr ?r1))) (Inr ?r2))) ''agent_id''
          = Some (Val (PStr ''id-1''))"
    by auto
  with m c1 c2 show ?thesis by simp
qed

section \<open>Seeding the holdings\<close>

lemma seed_other:
  "s \<notin> fst ` set d \<Longrightarrow>
     map_of (foldl (\<lambda>acc (k, v). AList.update (PStr k) v acc) b d) (PStr s) = map_of b (PStr s)"
  by (induction d arbitrary: b) (auto simp: update_conv')

lemma seed_entry:
  "distinct (map fst d) \<Longrightarrow> (s, v) \<in> set d \<Longrightarrow>
     map_of (foldl (\<lambda>acc (k, v). AList.update (PStr k) v acc) b d) (PStr s) = Some v"
proof (induction d arbitrary: b)
  case Nil
  then show ?case by simp
next
  case (Cons e d)
  obtain k x where e: "e = (k, x)" by (cases e)
  show ?case
  proof (cases "(s, v) = (k, x)")
    case True
    with Cons.prems e have "s \<notin> fst ` set d" by auto
    from seed_other[OF this] True e show ?thesis by (simp add: update_conv')
  next
    case False
    with Cons.prems e have "(s, v) \<in> set d" "distinct (map fst d)" by auto
    with Cons.IH e show ?thesis by simp
  qed
qed

lemma run_create_seeded:
  assumes "module_ready agents key"
    and "caller r = key" and "func_name r = ''create''"
    and "func_input_data r = PDict fi" and "map_of fi ''initial_holdings'' = Some (PDict d)"
  shows "\<exists>m a p. map_of (fst (run h agents (Inr r))) key = Some m \<and> agent m = Some a
           \<and> holdings a = Some p
           \<and> token_balances p = foldl (\<lambda>acc (k, v). AList.update (PStr k) v acc)
                 (case map_of agents key of
                    None \<Rightarrow> []
                  | Some m0 \<Rightarrow> (case agent m0 of
                                 None \<Rightarrow> []
                               | Some a0 \<Rightarrow> (case holdings a0 of None \<Rightarrow> [] | Some p0 \<Rightarrow> token_balances p0)))
                 d"
proof -
  let ?m = "case map_of agents (caller r) of
              None \<Rightarrow> EconomicAgentModule_init h (run_deployment r) (caller r)
            | Some m \<Rightarrow> m"
  let ?b = "case map_of agents key of
                    None \<Rightarrow> []
                  | Some m0 \<Rightarrow> (case agent m0 of
                                 None \<Rightarrow> []
                               | Some a0 \<Rightarrow> (case holdings a0 of None \<Rightarrow> [] | Some p0 \<Rightarrow> token_balances p0))"
  from assms(1,2) obtain a p where a: "agent ?m = Some a" "holdings a = Some p" "token_balances p = ?b"
    using init_agent[of h "run_deployment r" "caller r"]
    by (auto simp: module_ready_def split: option.splits)
  have ne: "fi \<noteq> []" using assms(5) by auto
  have d: "dispatch (parse_float h) ?m (func_name r) (func_input_data r) = create ?m (PDict d)"
    using assms(3,4,5) ne by (simp add: dispatch_method methods_def call_method_def)
  from create_succeeds[OF a(1,2), of "PDict d"] obtain a' p' where
    c: "agent (fst (create ?m (PDict d))) = Some a'" "holdings a' = Some p'"
       "token_balances p' = (if truthy (PDict d) then fst (dict_update (token_balances p) (PDict d))
                             else token_balances p)"
    by auto
  have tb: "token_balances p' = foldl (\<lambda>acc (k, v). AList.update (PStr k) v acc) ?b d"
    using c(3) a(3) by (cases d) simp_all
  have reg: "map_of (fst (run h agents (Inr r))) key = Some (fst (create ?m (PDict d)))"
    using d assms(2) by (simp add: run_registry update_conv')
  from reg c(1,2) tb show ?thesis by blast
qed

lemma run_get_token_balance:
  assumes "map_of agents key = Some m" and "agent m = Some a" and "holdings a = Some p"
  shows "snd (run h agents (Inr \<lparr>caller = key, run_deployment = dep,
                                  func_name = ''get_token_balance'',
                                  func_input_data = PDict [(''symbol'', PStr s)]\<rparr>))
           = [(''status'', Val (PStr ''success'')), (''symbol'', Val (PStr s)),
              (''balance'', Val (case map_of (token_balances p) (PStr s) of
                                    None \<Rightarrow> PFloat (Finite 0) | Some v \<Rightarrow> v))]"
  using assms
  by (simp add: run_result dispatch_method methods_def call_method_def module_get_token_balance_def
        model_truthy_def agent_get_token_balance_def get_token_balance_def dict_get_str)

text \<open>
  C8. A \<open>create\<close> request with a mapping as \<open>initial_holdings\<close>, for a caller who has no
  module object yet or has one with its agent and holdings: the answer is a success
  envelope, the transaction history of the caller is what it was before (empty for a new
  caller), so the seeding records no transaction, and a \<open>get_token_balance\<close> request that
  follows at once for a symbol of the mapping answers with the amount the mapping gives
  for it.
\<close>

theorem create_seeds_balances:
  assumes "module_ready agents key"
    and "caller r = key" and "func_name r = ''create''"
    and "func_input_data r = PDict fi" and "map_of fi ''initial_holdings'' = Some (PDict d)"
    and "distinct (map fst d)"
  shows "status (snd (run h agents (Inr r))) = Some (Val (PStr ''success''))
       \<and> history_of (fst (run h agents (Inr r))) key = history_of agents key
       \<and> (\<forall>s v h' dep. (s, v) \<in> set d \<longrightarrow>
             snd (run h' (fst (run h agents (Inr r)))
                    (Inr \<lparr>caller = key, run_deployment = dep, func_name = ''get_token_balance'',
                          func_input_data = PDict [(''symbol'', PStr s)]\<rparr>))
               = [(''status'', Val (PStr ''success'')), (''symbol'', Val (PStr s)),
                  (''balance'', Val v)])"
proof -
  have ok: "create_input_ok (func_input_data r)"
    using assms(4,5) by (auto simp: create_input_ok_def)
  from run_create[OF assms(1,2,3) ok, of h]
  have one: "status (snd (run h agents (Inr r))) = Some (Val (PStr ''success''))"
    and two: "history_of (fst (run h agents (Inr r))) key = history_of agents key"
    by auto
  from run_create_seeded[OF assms(1-5), of h] obtain m a p b where
    st: "map_of (fst (run h agents (Inr r))) key = Some m" "agent m = Some a" "holdings a = Some p"
        "token_balances p = foldl (\<lambda>acc (k, v). AList.update (PStr k) v acc) b d"
    by blast
  have three: "\<forall>s v h' dep. (s, v) \<in> set d \<longrightarrow>
             snd (run h' (fst (run h agents (Inr r)))
                    (Inr \<lparr>caller = key, run_deployment = dep, func_name = ''get_token_balance'',
                          func_input_data = PDict [(''symbol'', PStr s)]\<rparr>))
               = [(''status'', Val (PStr ''success'')), (''symbol'', Val (PStr s)),
                  (''balance'', Val v)]"
  proof (intro allI impI)
    fix s v h' dep assume sv: "(s, v) \<in> set d"
    from seed_entry[OF assms(6) sv, of b] st(4)
    have "map_of (token_balances p) (PStr s) = Some v" by simp
    with run_get_token_balance[OF st(1-3), of h' dep s]
    show "snd (run h' (fst (run h agents (Inr r)))
                    (Inr \<lparr>caller = key, run_deployment = dep, func_name = ''get_token_balance'',
                          func_input_data = PDict [(''symbol'', PStr s)]\<rparr>))
               = [(''status'', Val (PStr ''success'')), (''symbol'', Val (PStr s)),
                  (''balance'', Val v)]"
      by simp
  qed
  from one two three show ?thesis by blast
qed

theorem create_seeds_balances_witness:
  "module_ready ([] :: unit registry) ''alice''
   \<and> distinct (map fst [(''ETH'', PFloat (Finite 1)), (''NAPTHA'', PFloat (Finite 100))])
   \<and> history_of (fst (run \<lparr>parse_float = (\<lambda>s. None), new_id = ''id-1'', account_key = ''0xk'',
                           account_address = ''0xA''\<rparr> []
                        (Inr \<lparr>caller = ''alice'', run_deployment = (), func_name = ''create'',
                              func_input_data =
                                PDict [(''initial_holdings'',
                                        PDict [(''ETH'', PFloat (Finite 1)), (''NAPTHA'', PFloat (Finite 100))])]\<rparr>)))
        ''alice'' = []
   \<and> snd (run \<lparr>parse_float = (\<lambda>s. None), new_id = ''id-2'', account_key = ''0xk2'',
               account_address = ''0xB''\<rparr>
          (fst (run \<lparr>parse_float = (\<lambda>s. None), new_id = ''id-1'', account_key = ''0xk'',
                     account_address = ''0xA''\<rparr> []
                  (Inr \<lparr>caller = ''alice'', run_deployment = (), func_name = ''create'',
                        func_input_data =
                          PDict [(''initial_holdings'',
                                  PDict [(''ETH'', PFloat (Finite 1)), (''NAPTHA'', PFloat (Finite 100))])]\<rparr>)))
          (Inr \<lparr>caller = ''alice'', run_deployment = (), func_name = ''get_token_balance'',
                func_input_data = PDict [(''symbol'', PStr ''NAPTHA'')]\<rparr>))
       = [(''status'', Val (PStr ''success'')), (''symbol'', Val (PStr ''NAPTHA'')),
          (''balance'', Val (PFloat (Finite 100)))]"
proof -
  let ?h1 = "\<lparr>parse_float = (\<lambda>s. None), new_id = ''id-1'', account_key = ''0xk'',
              account_address = ''0xA''\<rparr>"
  let ?d = "[(''ETH'', PFloat (Finite 1)), (''NAPTHA'', PFloat (Finite 100))]"
  let ?r = "\<lparr>caller = ''alice'', run_deployment = (), func_name = ''create'',
              func_input_data = PDict [(''initial_holdings'', PDict ?d)]\<rparr>"
  have m: "module_ready ([] :: unit registry) ''alice''" by (simp add: module_ready_def)
  have dist: "distinct (map fst ?d)" by simp
  have h0: "history_of ([] :: unit registry) ''alice'' = []" by (simp add: history_of_def)
  have mem: "(''NAPTHA'', PFloat (Finite 100)) \<in> set ?d" by simp
  from create_seeds_balances[of "[] :: unit registry" "''alice''" ?r
         "[(''initial_holdings'', PDict ?d)]" ?d ?h1, OF m _ _ _ _ dist]
  have c: "history_of (fst (run ?h1 [] (Inr ?r))) ''alice'' = history_of ([] :: unit registry) ''alice''"
    and g: "\<forall>s v h' dep. (s, v) \<in> set ?d \<longrightarrow>
             snd (run h' (fst (run ?h1 [] (Inr ?r)))
                    (Inr \<lparr>caller = ''alice'', run_deployment = dep, func_name = ''get_token_balance'',
                          func_input_data = PDict [(''symbol'', PStr s)]\<rparr>))
               = [(''status'', Val (PStr ''success'')), (''symbol'', Val (PStr s)),
                  (''balance'', Val v)]"
    by simp_all
  from g mem have "snd (run \<lparr>parse_float = (\<lambda>s. None), new_id = ''id-2'', account_key = ''0xk2'',
               account_address = ''0xB''\<rparr> (fst (run ?h1 [] (Inr ?r)))
                    (Inr \<lparr>caller = ''alice'', run_deployment = (), func_name = ''get_token_balance'',
                          func_input_data = PDict [(''symbol'', PStr ''NAPTHA'')]\<rparr>))
               = [(''status'', Val (PStr ''success'')), (''symbol'', Val (PStr ''NAPTHA'')),
                  (''balance'', Val (PFloat (Finite 100)))]"
    by blast
  with m dist c h0 show ?thesis by simp
qed

end
